theory Spec2Isabelle
  imports Main "HOL-Library.Signed_Division" "HOL-Library.Sublist"
begin

section \<open>Strings, numbers and clock values\<close>

text \<open>
  Go strings are byte sequences; \<open>len\<close> and slicing count bytes. They are modelled as
  \<^typ>\<open>string\<close> (a list of 8-bit characters). Go's \<open>int\<close> is a 64-bit integer; the
  monitor only divides, multiplies back and compares small minute counts, so the values are
  modelled as \<^typ>\<open>int\<close> with Go's truncating division written as \<open>sdiv\<close>.
\<close>

definition isDigit :: "char \<Rightarrow> bool" where
  "isDigit c = (48 \<le> (of_char c :: nat) \<and> (of_char c :: nat) \<le> 57)"

definition digitVal :: "char \<Rightarrow> nat" where
  "digitVal c = (of_char c :: nat) - 48"

text \<open>The digit loop of \<open>strconv.Atoi\<close>: \<open>n = n*10 + int(ch)\<close>, a syntax error on any
  byte outside \<open>'0'..'9'\<close>.\<close>

fun atoi_digits :: "nat \<Rightarrow> string \<Rightarrow> nat option" where
  "atoi_digits n [] = Some n"
| "atoi_digits n (ch # s) = (if isDigit ch then atoi_digits (n * 10 + digitVal ch) s else None)"

text \<open>\<open>strconv.Atoi\<close> (base 10, optional sign, at least one digit, result in the range of
  a 64-bit \<open>int\<close>); \<open>None\<close> is the returned error.\<close>

definition Atoi :: "string \<Rightarrow> int option" where
  "Atoi s0 =
     (case s0 of
        [] \<Rightarrow> None
      | c # cs \<Rightarrow>
          (let s = (if c = CHR ''-'' \<or> c = CHR ''+'' then cs else s0) in
           if s = [] then None
           else (case atoi_digits 0 s of
                   None \<Rightarrow> None
                 | Some n \<Rightarrow>
                     (let v = (if c = CHR ''-'' then - int n else int n) in
                      if - (2 ^ 63) \<le> v \<and> v < 2 ^ 63 then Some v else None))))"

text \<open>
  A \<open>time.Time\<close> is an instant, and a \<open>time.Duration\<close> a signed 64-bit count of
  nanoseconds. Instants are modelled as nanoseconds on one time line (an \<^typ>\<open>int\<close>).
\<close>

type_synonym time = int
type_synonym duration = int

definition Minute :: duration where
  "Minute = 60 * 1000000000"

definition maxDuration :: duration where
  "maxDuration = 2 ^ 63 - 1"

definition minDuration :: duration where
  "minDuration = - (2 ^ 63)"

text \<open>\<open>t.Sub(u)\<close>: the difference \<open>t - u\<close>, saturated at the largest and smallest
  \<open>Duration\<close>.\<close>

definition Sub :: "time \<Rightarrow> time \<Rightarrow> duration" where
  "Sub t u = (if t - u > maxDuration then maxDuration
              else if t - u < minDuration then minDuration else t - u)"

text \<open>\<open>t.Add(d)\<close>.\<close>

definition Add :: "time \<Rightarrow> duration \<Rightarrow> time" where
  "Add t d = t + d"

text \<open>\<open>int(d.Minutes())\<close>: the floating-point minute count converted back to \<open>int\<close>
  (truncating). For a duration that is a whole number of minutes, the only kind
  \<open>calculateDelay\<close> produces, the conversion is exact and equals the truncating quotient.\<close>

definition intMinutes :: "duration \<Rightarrow> int" where
  "intMinutes d = d sdiv Minute"

text \<open>\<open>strings.ReplaceAll(s, ":", "")\<close>.\<close>

definition removeColons :: "string \<Rightarrow> string" where
  "removeColons s = filter (\<lambda>c. c \<noteq> CHR '':'') s"

text \<open>\<open>strings.HasPrefix(s, prefix)\<close>: \<open>len(s) >= len(prefix) && s[:len(prefix)] == prefix\<close>.\<close>

definition HasPrefix :: "string \<Rightarrow> string \<Rightarrow> bool" where
  "HasPrefix s pre = (length s \<ge> length pre \<and> take (length pre) s = pre)"

text \<open>The errors the monitors and the scheduler return or log, one constructor per
  origin (Go wraps them in messages).\<close>

datatype error =
    ParseError
  | InvalidTimeFormat
  | SearchError
  | ServiceDetailError
  | LineStatusError
  | DeliveryError
  | NoServicesFound
  | NoMatchingService
  | NoArrivalTime
  | DestinationNotFound

text \<open>
  \<open>parseHHMM\<close> (train.go): strip colons, require four bytes, read the hour from
  \<open>s[:2]\<close> and the minute from \<open>s[2:4]\<close>, and build
  \<open>time.Date(0, 1, 1, h, m, 0, 0, time.UTC)\<close>. \<open>time.Date\<close> normalises
  out-of-range hours and minutes by carrying, so the instant is \<open>h\<close> hours and \<open>m\<close>
  minutes after midnight of the base date; the base date is instant 0 of the result.
\<close>

definition parseHHMM :: "string \<Rightarrow> error + time" where
  "parseHHMM s0 =
     (let s = removeColons s0 in
      if length s < 4 then Inl InvalidTimeFormat
      else (case Atoi (take 2 s) of
              None \<Rightarrow> Inl ParseError
            | Some h \<Rightarrow>
                (case Atoi (take 2 (drop 2 s)) of
                   None \<Rightarrow> Inl ParseError
                 | Some m \<Rightarrow> Inr (h * (60 * Minute) + m * Minute))))"

text \<open>\<open>calculateDelay\<close> (train.go).\<close>

definition calculateDelay :: "string \<Rightarrow> string \<Rightarrow> int" where
  "calculateDelay scheduled actual =
     (case parseHHMM scheduled of
        Inl _ \<Rightarrow> 0
      | Inr schedTime \<Rightarrow>
          (case parseHHMM actual of
             Inl _ \<Rightarrow> 0
           | Inr actualTime \<Rightarrow>
               (let diff = Sub actualTime schedTime in
                if diff < 0 then 0 else intMinutes diff)))"

section \<open>The notification sink\<close>

text \<open>
  The calls the monitors make on the \<open>Notifier\<close> (pushover.go), one constructor per
  method with its arguments. Every method ends in \<open>SendWithPriority\<close>; \<open>title\<close> and
  \<open>priority\<close> are the title and the priority the method passes on.
\<close>

datatype notification =
    SendTrainDelay string string string int string string
  | SendTrainOnTime string string string string string
  | SendTrainArrival string string string
  | SendTrainCancellation string string string string
  | SendTubeDisruption string string
  | SendTubeStatus string string

definition PriorityNormal :: int where
  "PriorityNormal = 0"

definition PriorityHigh :: int where
  "PriorityHigh = 1"

fun priority :: "notification \<Rightarrow> int" where
  "priority (SendTrainDelay trainID frm dest delayMinutes expectedTime platform) = PriorityHigh"
| "priority (SendTrainOnTime trainID frm dest departureTime platform) = PriorityNormal"
| "priority (SendTrainArrival trainID station arrivalTime) = PriorityNormal"
| "priority (SendTrainCancellation trainID frm dest reason) = PriorityHigh"
| "priority (SendTubeDisruption status reason) = PriorityHigh"
| "priority (SendTubeStatus status reason) = PriorityNormal"

fun title :: "notification \<Rightarrow> string" where
  "title (SendTrainDelay trainID frm dest delayMinutes expectedTime platform) = ''Train Delay Alert''"
| "title (SendTrainOnTime trainID frm dest departureTime platform) = ''Train Status''"
| "title (SendTrainArrival trainID station arrivalTime) = ''Train Arrival''"
| "title (SendTrainCancellation trainID frm dest reason) = ''Train Cancellation Alert''"
| "title (SendTubeDisruption status reason) = ''Tube Disruption Alert''"
| "title (SendTubeStatus status reason) = ''Northern Line Status''"

text \<open>The push transport (\<open>app.SendMessage\<close>) is external: it is a function telling, for
  each message, whether the transport accepted it. \<open>SendWithPriority\<close> turns a refusal
  into an error.\<close>

type_synonym pushover = "notification \<Rightarrow> bool"

definition SendWithPriority :: "pushover \<Rightarrow> notification \<Rightarrow> error option" where
  "SendWithPriority app n = (if app n then None else Some DeliveryError)"

text \<open>What one call on a monitor did: the monitor's state afterwards, the notifier calls
  made (in order) and the error returned.\<close>

record 's outcome =
  st :: 's
  sent :: "notification list"
  err :: "error option"

definition silent :: "'s \<Rightarrow> error option \<Rightarrow> 's outcome" where
  "silent s e = \<lparr>st = s, sent = [], err = e\<rparr>"

definition notify :: "pushover \<Rightarrow> 's \<Rightarrow> notification \<Rightarrow> 's outcome" where
  "notify app s n = \<lparr>st = s, sent = [n], err = SendWithPriority app n\<rparr>"

section \<open>The journey monitor (train.go)\<close>

text \<open>The fields of the search and service-detail responses (rtt/types.go) that the
  monitor reads.\<close>

record LocationDetail =
  GbttBookedDeparture :: string
  RealtimeDeparture :: string
  Platform :: string
  DisplayAs :: string
  CancelReasonShortText :: string

record Service =
  ServiceUid :: string
  LocationDetail :: LocationDetail

record SearchResponse =
  Services :: "Service list"

record ServiceLocation =
  CRS :: string
  GbttBookedArrival :: string
  RealtimeArrival :: string
  RealtimeArrivalActual :: bool

record ServiceDetailResponse =
  Locations :: "ServiceLocation list"

text \<open>The dedup memory of \<open>TrainMonitor\<close>: two Go maps keyed by service uid. Reading a
  Go map at an absent key gives the zero value (\<open>0\<close>, \<open>false\<close>).\<close>

record TrainMonitor =
  notifiedDelays :: "string \<rightharpoonup> int"
  notifiedCancels :: "string \<rightharpoonup> bool"

definition readInt :: "(string \<rightharpoonup> int) \<Rightarrow> string \<Rightarrow> int" where
  "readInt m k = (case m k of None \<Rightarrow> 0 | Some v \<Rightarrow> v)"

definition readBool :: "(string \<rightharpoonup> bool) \<Rightarrow> string \<Rightarrow> bool" where
  "readBool m k = (case m k of None \<Rightarrow> False | Some v \<Rightarrow> v)"

definition NewTrainMonitor :: TrainMonitor where
  "NewTrainMonitor = \<lparr>notifiedDelays = Map.empty, notifiedCancels = Map.empty\<rparr>"

definition TrainMonitor_ResetNotificationState :: "TrainMonitor \<Rightarrow> TrainMonitor" where
  "TrainMonitor_ResetNotificationState m = m\<lparr>notifiedDelays := Map.empty, notifiedCancels := Map.empty\<rparr>"

fun findMatchingService :: "Service list \<Rightarrow> string \<Rightarrow> Service option" where
  "findMatchingService [] targetTime = None"
| "findMatchingService (svc # services) targetTime =
     (let bookedDep = GbttBookedDeparture (LocationDetail svc) in
      if bookedDep = targetTime \<or> HasPrefix bookedDep targetTime then Some svc
      else findMatchingService services targetTime)"

definition handleCancellation ::
  "pushover \<Rightarrow> TrainMonitor \<Rightarrow> Service \<Rightarrow> string \<Rightarrow> string \<Rightarrow> TrainMonitor outcome" where
  "handleCancellation app m svc frm dest =
     (let alreadyNotified = readBool (notifiedCancels m) (ServiceUid svc);
          m' = (if \<not> alreadyNotified
                then m\<lparr>notifiedCancels := (notifiedCancels m)(ServiceUid svc \<mapsto> True)\<rparr>
                else m)
      in if alreadyNotified then silent m' None
         else (let reason = (if CancelReasonShortText (LocationDetail svc) = ''''
                             then ''No reason provided''
                             else CancelReasonShortText (LocationDetail svc))
               in notify app m' (SendTrainCancellation (ServiceUid svc) frm dest reason)))"

definition delayBucket :: "int \<Rightarrow> int" where
  "delayBucket delayMins = delayMins sdiv 5 * 5"

definition handleDelay ::
  "pushover \<Rightarrow> TrainMonitor \<Rightarrow> Service \<Rightarrow> string \<Rightarrow> string \<Rightarrow> int \<Rightarrow> TrainMonitor outcome" where
  "handleDelay app m svc frm dest delayMins =
     (let lastBucket = readInt (notifiedDelays m) (ServiceUid svc);
          shouldNotify = (delayBucket delayMins > lastBucket);
          m' = (if shouldNotify
                then m\<lparr>notifiedDelays := (notifiedDelays m)(ServiceUid svc \<mapsto> delayBucket delayMins)\<rparr>
                else m)
      in if \<not> shouldNotify then silent m' None
         else (let detail = LocationDetail svc;
                   platform = (if Platform detail = '''' then ''TBC'' else Platform detail)
               in notify app m'
                    (SendTrainDelay (ServiceUid svc) frm dest delayMins
                       (RealtimeDeparture detail) platform)))"

definition processService ::
  "pushover \<Rightarrow> TrainMonitor \<Rightarrow> Service \<Rightarrow> string \<Rightarrow> string \<Rightarrow> bool \<Rightarrow> TrainMonitor outcome" where
  "processService app m svc frm dest alwaysNotify =
     (let detail = LocationDetail svc in
      if DisplayAs detail = ''CANCELLED_CALL'' \<or> DisplayAs detail = ''CANCELLED''
      then handleCancellation app m svc frm dest
      else
        (let platform = (if Platform detail = '''' then ''TBC'' else Platform detail);
             delayMins = (if RealtimeDeparture detail \<noteq> '''' \<and> GbttBookedDeparture detail \<noteq> ''''
                          then calculateDelay (GbttBookedDeparture detail) (RealtimeDeparture detail)
                          else 0)
         in if delayMins > 0
            then (if alwaysNotify
                  then notify app m
                         (SendTrainDelay (ServiceUid svc) frm dest delayMins
                            (RealtimeDeparture detail) platform)
                  else handleDelay app m svc frm dest delayMins)
            else if alwaysNotify
            then notify app m
                   (SendTrainOnTime (ServiceUid svc) frm dest (GbttBookedDeparture detail) platform)
            else silent m None))"

text \<open>
  \<open>time.Parse("1504", value)\<close>: the layout is a two-digit hour followed by a two-digit
  minute. \<open>getnum\<close> is the helper of package \<open>time\<close> that reads one or two digits
  (exactly two when \<open>fixed\<close>); the hour must be below 24, the minute below 60, and no text
  may remain. The result is the hour and the minute.
\<close>

definition getnum :: "string \<Rightarrow> bool \<Rightarrow> (nat \<times> string) option" where
  "getnum s fixed =
     (case s of
        [] \<Rightarrow> None
      | c0 # r0 \<Rightarrow>
          if \<not> isDigit c0 then None
          else (case r0 of
                  [] \<Rightarrow> if fixed then None else Some (digitVal c0, r0)
                | c1 # r1 \<Rightarrow>
                    if \<not> isDigit c1 then (if fixed then None else Some (digitVal c0, r0))
                    else Some (digitVal c0 * 10 + digitVal c1, r1)))"

definition timeParse1504 :: "string \<Rightarrow> (nat \<times> nat) option" where
  "timeParse1504 v =
     (case getnum v False of
        None \<Rightarrow> None
      | Some (hour, v1) \<Rightarrow>
          if 24 \<le> hour then None
          else (case getnum v1 True of
                  None \<Rightarrow> None
                | Some (mn, v2) \<Rightarrow>
                    if 60 \<le> mn then None
                    else if v2 \<noteq> [] then None
                    else Some (hour, mn)))"

text \<open>\<open>parseTimeToday\<close>: the parse decides success; the instant it builds from the local
  date is only passed on to the search request.\<close>

definition parseTimeToday :: "string \<Rightarrow> error + (nat \<times> nat)" where
  "parseTimeToday timeStr =
     (case timeParse1504 timeStr of None \<Rightarrow> Inl ParseError | Some hm \<Rightarrow> Inr hm)"

text \<open>The answers of the external collaborators during one call: the route search and the
  service-detail lookup. \<open>Search\<close> answers an error or a response pointer, which the
  monitor also tests for \<open>nil\<close>.\<close>

record rtt =
  Search :: "error + SearchResponse option"
  GetService :: "error + ServiceDetailResponse"

definition CheckDelay ::
  "rtt \<Rightarrow> pushover \<Rightarrow> TrainMonitor \<Rightarrow> string \<Rightarrow> string \<Rightarrow> string \<Rightarrow> TrainMonitor outcome" where
  "CheckDelay client app m frm dest departureTime =
     (case parseTimeToday departureTime of
        Inl e \<Rightarrow> silent m (Some ParseError)
      | Inr depTime \<Rightarrow>
          (case Search client of
             Inl e \<Rightarrow> silent m (Some SearchError)
           | Inr None \<Rightarrow> silent m None
           | Inr (Some resp) \<Rightarrow>
               if length (Services resp) = 0 then silent m None
               else (case findMatchingService (Services resp) departureTime of
                       None \<Rightarrow> silent m None
                     | Some service \<Rightarrow> processService app m service frm dest False)))"

definition TrainMonitor_CheckStatus ::
  "rtt \<Rightarrow> pushover \<Rightarrow> TrainMonitor \<Rightarrow> string \<Rightarrow> string \<Rightarrow> string \<Rightarrow> TrainMonitor outcome" where
  "TrainMonitor_CheckStatus client app m frm dest departureTime =
     (case parseTimeToday departureTime of
        Inl e \<Rightarrow> silent m (Some ParseError)
      | Inr depTime \<Rightarrow>
          (case Search client of
             Inl e \<Rightarrow> silent m (Some SearchError)
           | Inr None \<Rightarrow> silent m None
           | Inr (Some resp) \<Rightarrow>
               if length (Services resp) = 0 then silent m None
               else (case findMatchingService (Services resp) departureTime of
                       None \<Rightarrow> silent m None
                     | Some service \<Rightarrow> processService app m service frm dest True)))"

text \<open>The loop of \<open>CheckArrival\<close> over the stops: the first stop whose code is the
  destination decides (\<open>break\<close>); the result is that stop when its arrival is confirmed.\<close>

fun arrivalAt :: "ServiceLocation list \<Rightarrow> string \<Rightarrow> ServiceLocation option" where
  "arrivalAt [] dest = None"
| "arrivalAt (loc # locs) dest =
     (if CRS loc = dest
      then (if RealtimeArrivalActual loc then Some loc else None)
      else arrivalAt locs dest)"

text \<open>\<open>CheckArrival\<close> returns \<open>(arrived, err)\<close>; the monitor's memory is not touched.\<close>

definition CheckArrival ::
  "rtt \<Rightarrow> pushover \<Rightarrow> TrainMonitor \<Rightarrow> string \<Rightarrow> string \<Rightarrow> string \<Rightarrow> bool \<times> TrainMonitor outcome" where
  "CheckArrival client app m frm dest departureTime =
     (case parseTimeToday departureTime of
        Inl e \<Rightarrow> (False, silent m (Some ParseError))
      | Inr depTime \<Rightarrow>
          (case Search client of
             Inl e \<Rightarrow> (False, silent m (Some SearchError))
           | Inr None \<Rightarrow> (False, silent m None)
           | Inr (Some resp) \<Rightarrow>
               if length (Services resp) = 0 then (False, silent m None)
               else (case findMatchingService (Services resp) departureTime of
                       None \<Rightarrow> (False, silent m None)
                     | Some service \<Rightarrow>
                         (case GetService client of
                            Inl e \<Rightarrow> (False, silent m (Some ServiceDetailError))
                          | Inr details \<Rightarrow>
                              (case arrivalAt (Locations details) dest of
                                 None \<Rightarrow> (False, silent m None)
                               | Some loc \<Rightarrow>
                                   (let arrivalTime = (if RealtimeArrival loc = ''''
                                                       then GbttBookedArrival loc
                                                       else RealtimeArrival loc)
                                    in (True, notify app m
                                                (SendTrainArrival (ServiceUid service) dest arrivalTime))))))))"

text \<open>
  \<open>GetExpectedArrivalTime\<close>. The loop stops at the first stop whose code is the
  destination and reads its arrival string. \<open>localDate h m\<close> stands for
  \<open>time.Date(now.Year(), now.Month(), now.Day(), h, m, 0, 0, time.Local)\<close>, which depends on
  the clock and the time zone of the host; \<open>Hour\<close> and \<open>Minute\<close> are the clock fields of
  the instant \<open>parseHHMM\<close> built.
\<close>

definition Hour :: "time \<Rightarrow> nat" where
  "Hour t = nat ((t div (60 * Minute)) mod 24)"

definition MinuteOf :: "time \<Rightarrow> nat" where
  "MinuteOf t = nat ((t div Minute) mod 60)"

fun destinationArrival :: "ServiceLocation list \<Rightarrow> string \<Rightarrow> (error + time) option" where
  "destinationArrival [] dest = None"
| "destinationArrival (loc # locs) dest =
     (if CRS loc = dest
      then (let arrivalStr = (if RealtimeArrival loc = '''' then GbttBookedArrival loc
                              else RealtimeArrival loc)
            in if arrivalStr = '''' then Some (Inl NoArrivalTime)
               else (case parseHHMM arrivalStr of
                       Inl e \<Rightarrow> Some (Inl e)
                     | Inr arrivalTime \<Rightarrow> Some (Inr arrivalTime)))
      else destinationArrival locs dest)"

definition GetExpectedArrivalTime ::
  "rtt \<Rightarrow> (nat \<Rightarrow> nat \<Rightarrow> time) \<Rightarrow> string \<Rightarrow> string \<Rightarrow> string \<Rightarrow> error + time" where
  "GetExpectedArrivalTime client localDate frm dest departureTime =
     (case parseTimeToday departureTime of
        Inl e \<Rightarrow> Inl ParseError
      | Inr depTime \<Rightarrow>
          (case Search client of
             Inl e \<Rightarrow> Inl SearchError
           | Inr None \<Rightarrow> Inl NoServicesFound
           | Inr (Some resp) \<Rightarrow>
               if length (Services resp) = 0 then Inl NoServicesFound
               else (case findMatchingService (Services resp) departureTime of
                       None \<Rightarrow> Inl NoMatchingService
                     | Some service \<Rightarrow>
                         (case GetService client of
                            Inl e \<Rightarrow> Inl ServiceDetailError
                          | Inr details \<Rightarrow>
                              (case destinationArrival (Locations details) dest of
                                 None \<Rightarrow> Inl DestinationNotFound
                               | Some (Inl e) \<Rightarrow> Inl e
                               | Some (Inr arrivalTime) \<Rightarrow>
                                   Inr (localDate (Hour arrivalTime) (MinuteOf arrivalTime)))))))"

section \<open>The line monitor (tube.go, tfl/types.go)\<close>

record StatusDetail =
  StatusSeverity :: int
  StatusSeverityDescription :: string
  Reason :: string

record LineStatus =
  LineStatuses :: "StatusDetail list"

definition StatusGoodService :: int where
  "StatusGoodService = 10"

definition StatusServiceClosed :: int where
  "StatusServiceClosed = 6"

definition IsGoodService :: "StatusDetail \<Rightarrow> bool" where
  "IsGoodService s = (StatusSeverity s = StatusGoodService)"

definition HasDisruption :: "StatusDetail \<Rightarrow> bool" where
  "HasDisruption s = (StatusSeverity s < StatusGoodService \<and> StatusSeverity s \<noteq> StatusServiceClosed)"

record TubeMonitor =
  lastStatus :: string
  lastStatusReason :: string

definition NewTubeMonitor :: TubeMonitor where
  "NewTubeMonitor = \<lparr>lastStatus = '''', lastStatusReason = ''''\<rparr>"

definition TubeMonitor_ResetNotificationState :: "TubeMonitor \<Rightarrow> TubeMonitor" where
  "TubeMonitor_ResetNotificationState m = m\<lparr>lastStatus := '''', lastStatusReason := ''''\<rparr>"

text \<open>\<open>TubeMonitor.CheckStatus\<close>; the first argument is the answer of
  \<open>GetNorthernLineStatus\<close>.\<close>

definition TubeMonitor_CheckStatus ::
  "error + LineStatus \<Rightarrow> pushover \<Rightarrow> TubeMonitor \<Rightarrow> TubeMonitor outcome" where
  "TubeMonitor_CheckStatus fetched app m =
     (case fetched of
        Inl e \<Rightarrow> silent m (Some LineStatusError)
      | Inr status \<Rightarrow>
          (case LineStatuses status of
             [] \<Rightarrow> silent m None
           | currentStatus # others \<Rightarrow>
               (let statusDesc = StatusSeverityDescription currentStatus;
                    reason = Reason currentStatus;
                    statusChanged = (lastStatus m \<noteq> statusDesc \<or> lastStatusReason m \<noteq> reason);
                    isFirstCheck = (lastStatus m = '''');
                    m' = m\<lparr>lastStatus := statusDesc, lastStatusReason := reason\<rparr>
                in if \<not> statusChanged then silent m' None
                   else if isFirstCheck \<and> IsGoodService currentStatus then silent m' None
                   else if HasDisruption currentStatus \<or> (\<not> isFirstCheck \<and> statusChanged)
                   then notify app m'
                          (SendTubeDisruption statusDesc
                             (if reason = '''' then ''No additional details'' else reason))
                   else silent m' None)))"

definition SendStatusSummary ::
  "error + LineStatus \<Rightarrow> pushover \<Rightarrow> TubeMonitor \<Rightarrow> TubeMonitor outcome" where
  "SendStatusSummary fetched app m =
     (case fetched of
        Inl e \<Rightarrow> silent m (Some LineStatusError)
      | Inr status \<Rightarrow>
          (case LineStatuses status of
             [] \<Rightarrow> notify app m (SendTubeStatus ''Unknown'' ''Unable to retrieve status'')
           | currentStatus # others \<Rightarrow>
               notify app m
                 (SendTubeStatus (StatusSeverityDescription currentStatus) (Reason currentStatus))))"

section \<open>The scheduler (scheduler.go, config.go)\<close>

datatype TaskType =
    TaskMorningDelayCheck
  | TaskEveningDelayCheck
  | TaskMorningArrivalCheck
  | TaskEveningArrivalCheck
  | TaskNorthernLineCheck
  | TaskNorthernLineSummary
  | TaskMorningStatusUpdate
  | TaskEveningStatusUpdate

record Task =
  Type :: TaskType
  Time :: time
  Executed :: bool
  Repeating :: bool

record TrainConfig =
  From :: string
  To :: string
  Departure :: string
  Days :: "string list"

record Config =
  MorningTrain :: TrainConfig
  EveningTrain :: TrainConfig

text \<open>The scheduler holds the only references to the two monitors, so their memories are
  fields of its state.\<close>

record Scheduler =
  cfg :: Config
  trainMonitor :: TrainMonitor
  tubeMonitor :: TubeMonitor
  tasks :: "Task list"
  currentDay :: int
  arrivalPolling :: "TaskType \<rightharpoonup> bool"

definition NewScheduler :: "Config \<Rightarrow> TrainMonitor \<Rightarrow> TubeMonitor \<Rightarrow> Scheduler" where
  "NewScheduler c train tube =
     \<lparr>cfg = c, trainMonitor = train, tubeMonitor = tube, tasks = [], currentDay = 0,
      arrivalPolling = Map.empty\<rparr>"

text \<open>
  What \<open>setupDailyTasks\<close> reads from outside the scheduler: the day of the month and the
  weekday name of \<open>time.Now()\<close>, \<open>strings.ToLower\<close>, the constructor of instants of
  today's local date (see \<open>GetExpectedArrivalTime\<close>) and the answers to the arrival-time
  lookup.
\<close>

record daily =
  today :: int
  weekday :: string
  ToLower :: "string \<Rightarrow> string"
  localDate :: "nat \<Rightarrow> nat \<Rightarrow> time"
  lookup :: rtt

definition IsActiveDay :: "(string \<Rightarrow> string) \<Rightarrow> TrainConfig \<Rightarrow> string \<Rightarrow> bool" where
  "IsActiveDay lower t weekdayString =
     (if length (Days t) = 0 then True
      else (let dayName = lower weekdayString in list_ex (\<lambda>d. lower d = dayName) (Days t)))"

definition DepartureTime :: "(nat \<Rightarrow> nat \<Rightarrow> time) \<Rightarrow> TrainConfig \<Rightarrow> error + time" where
  "DepartureTime date t =
     (case timeParse1504 (Departure t) of
        None \<Rightarrow> Inl ParseError
      | Some (h, m) \<Rightarrow> Inr (date h m))"

text \<open>A task literal \<open>Task{Type: ty, Time: t}\<close>: the other fields are \<open>false\<close>.\<close>

definition mkTask :: "TaskType \<Rightarrow> time \<Rightarrow> Task" where
  "mkTask ty t = \<lparr>Type = ty, Time = t, Executed = False, Repeating = False\<rparr>"

text \<open>The loop \<open>for t := startTime; !t.After(morningDep); t = t.Add(5 * time.Minute)\<close>.\<close>

function lineCheckTasks :: "time \<Rightarrow> time \<Rightarrow> Task list" where
  "lineCheckTasks t morningDep =
     (if \<not> t > morningDep
      then mkTask TaskNorthernLineCheck t # lineCheckTasks (Add t (5 * Minute)) morningDep
      else [])"
  by pat_completeness auto
termination
  by (relation "measure (\<lambda>(t, morningDep). nat (morningDep - t + 1))")
     (auto simp: Add_def Minute_def)

definition journeyTasks :: "TaskType \<Rightarrow> TaskType \<Rightarrow> TaskType \<Rightarrow> time \<Rightarrow> Task list" where
  "journeyTasks delayCheck statusUpdate arrivalCheck dep =
     [mkTask delayCheck (Add dep (- 60 * Minute)),
      mkTask delayCheck (Add dep (- 45 * Minute)),
      mkTask delayCheck (Add dep (- 30 * Minute)),
      mkTask delayCheck (Add dep (- 15 * Minute)),
      mkTask statusUpdate (Add dep (- 60 * Minute)),
      mkTask statusUpdate (Add dep (- 30 * Minute)),
      (mkTask arrivalCheck (Add dep (70 * Minute)))\<lparr>Repeating := True\<rparr>]"

definition setupDailyTasks :: "daily \<Rightarrow> Scheduler \<Rightarrow> Scheduler" where
  "setupDailyTasks d s0 =
     (let s = s0\<lparr>currentDay := today d, tasks := [], arrivalPolling := Map.empty\<rparr>;
          morningActive = IsActiveDay (ToLower d) (MorningTrain (cfg s)) (weekday d);
          eveningActive = IsActiveDay (ToLower d) (EveningTrain (cfg s)) (weekday d)
      in if \<not> morningActive \<and> \<not> eveningActive then s
         else
           (let morningDep = (if morningActive
                              then (case DepartureTime (localDate d) (MorningTrain (cfg s)) of
                                      Inl e \<Rightarrow> None | Inr t \<Rightarrow> Some t)
                              else None);
                eveningDep = (if eveningActive
                              then (case DepartureTime (localDate d) (EveningTrain (cfg s)) of
                                      Inl e \<Rightarrow> None | Inr t \<Rightarrow> Some t)
                              else None);
                morningTasks =
                  (case morningDep of
                     None \<Rightarrow> []
                   | Some dep \<Rightarrow>
                       journeyTasks TaskMorningDelayCheck TaskMorningStatusUpdate
                         TaskMorningArrivalCheck dep
                       @ lineCheckTasks (Add dep (- 60 * Minute)) dep
                       @ (case GetExpectedArrivalTime (lookup d) (localDate d)
                                 (From (MorningTrain (cfg s))) (To (MorningTrain (cfg s)))
                                 (Departure (MorningTrain (cfg s))) of
                            Inl e \<Rightarrow> []
                          | Inr arrivalTime \<Rightarrow>
                              [mkTask TaskNorthernLineSummary (Add arrivalTime (- 15 * Minute))]));
                eveningTasks =
                  (case eveningDep of
                     None \<Rightarrow> []
                   | Some dep \<Rightarrow>
                       journeyTasks TaskEveningDelayCheck TaskEveningStatusUpdate
                         TaskEveningArrivalCheck dep)
            in s\<lparr>tasks := morningTasks @ eveningTasks\<rparr>))"

text \<open>The answers of the external collaborators while one task executes.\<close>

record collaborators =
  rttClient :: rtt
  tflClient :: "error + LineStatus"
  pushoverApp :: pushover

text \<open>What the execution of one task did: its position in the task list, its type, the
  notifier calls made and the error logged.\<close>

record execution =
  position :: nat
  taskType :: TaskType
  notifications :: "notification list"
  failure :: "error option"

text \<open>The end of \<open>executeTask\<close>: \<open>if !task.Repeating { task.Executed = true }\<close>.\<close>

definition markExecuted :: "Task \<Rightarrow> Task" where
  "markExecuted task = (if \<not> Repeating task then task\<lparr>Executed := True\<rparr> else task)"

text \<open>\<open>executeTask\<close> works on the monitors of the scheduler and on the task it is given
  a pointer to; it returns the scheduler, the task, the notifier calls and the error.\<close>

definition executeTask ::
  "collaborators \<Rightarrow> Scheduler \<Rightarrow> Task \<Rightarrow> Scheduler \<times> Task \<times> notification list \<times> error option" where
  "executeTask w s task =
     (let morning = MorningTrain (cfg s); evening = EveningTrain (cfg s) in
      case Type task of
        TaskMorningDelayCheck \<Rightarrow>
          (let r = CheckDelay (rttClient w) (pushoverApp w) (trainMonitor s)
                     (From morning) (To morning) (Departure morning)
           in (s\<lparr>trainMonitor := st r\<rparr>, markExecuted task, sent r, err r))
      | TaskEveningDelayCheck \<Rightarrow>
          (let r = CheckDelay (rttClient w) (pushoverApp w) (trainMonitor s)
                     (From evening) (To evening) (Departure evening)
           in (s\<lparr>trainMonitor := st r\<rparr>, markExecuted task, sent r, err r))
      | TaskMorningArrivalCheck \<Rightarrow>
          (let (arrived, r) = CheckArrival (rttClient w) (pushoverApp w) (trainMonitor s)
                                (From morning) (To morning) (Departure morning);
               task' = (if arrived then task\<lparr>Repeating := False\<rparr>
                        else task\<lparr>Time := Add (Time task) (5 * Minute)\<rparr>)
           in (s\<lparr>trainMonitor := st r\<rparr>, markExecuted task', sent r, err r))
      | TaskEveningArrivalCheck \<Rightarrow>
          (let (arrived, r) = CheckArrival (rttClient w) (pushoverApp w) (trainMonitor s)
                                (From evening) (To evening) (Departure evening);
               task' = (if arrived then task\<lparr>Repeating := False\<rparr>
                        else task\<lparr>Time := Add (Time task) (5 * Minute)\<rparr>)
           in (s\<lparr>trainMonitor := st r\<rparr>, markExecuted task', sent r, err r))
      | TaskNorthernLineCheck \<Rightarrow>
          (let r = TubeMonitor_CheckStatus (tflClient w) (pushoverApp w) (tubeMonitor s)
           in (s\<lparr>tubeMonitor := st r\<rparr>, markExecuted task, sent r, err r))
      | TaskNorthernLineSummary \<Rightarrow>
          (let r = SendStatusSummary (tflClient w) (pushoverApp w) (tubeMonitor s)
           in (s\<lparr>tubeMonitor := st r\<rparr>, markExecuted task, sent r, err r))
      | TaskMorningStatusUpdate \<Rightarrow>
          (let r = TrainMonitor_CheckStatus (rttClient w) (pushoverApp w) (trainMonitor s)
                     (From morning) (To morning) (Departure morning)
           in (s\<lparr>trainMonitor := st r\<rparr>, markExecuted task, sent r, err r))
      | TaskEveningStatusUpdate \<Rightarrow>
          (let r = TrainMonitor_CheckStatus (rttClient w) (pushoverApp w) (trainMonitor s)
                     (From evening) (To evening) (Departure evening)
           in (s\<lparr>trainMonitor := st r\<rparr>, markExecuted task, sent r, err r)))"

definition isWithinWindow :: "time \<Rightarrow> time \<Rightarrow> duration \<Rightarrow> bool" where
  "isWithinWindow taskTime now window = (let diff = Sub now taskTime in diff \<ge> 0 \<and> diff < window)"

text \<open>
  The loop of \<open>tick\<close> over \<open>s.tasks\<close>, in index order. Each task is looked at once, and
  \<open>executeTask\<close> changes only the task it is handed, so the loop is a recursion over the
  tasks still to visit; \<open>i\<close> is the index of the first of them and \<open>w i\<close> the
  collaborators' answers while task \<open>i\<close> executes. The result is the scheduler (with the
  monitors as the executions left them), the tasks visited, and the executions in order.
\<close>

fun tickLoop ::
  "(nat \<Rightarrow> collaborators) \<Rightarrow> time \<Rightarrow> nat \<Rightarrow> Scheduler \<Rightarrow> Task list
     \<Rightarrow> Scheduler \<times> Task list \<times> execution list" where
  "tickLoop w now i s [] = (s, [], [])"
| "tickLoop w now i s (task # rest) =
     (if Executed task \<and> \<not> Repeating task
      then (let (s', rest', log) = tickLoop w now (Suc i) s rest in (s', task # rest', log))
      else if isWithinWindow (Time task) now (2 * Minute)
      then (let (s1, task1, ns, e) = executeTask (w i) s task;
                (s', rest', log) = tickLoop w now (Suc i) s1 rest
            in (s', task1 # rest',
                \<lparr>position = i, taskType = Type task, notifications = ns, failure = e\<rparr> # log))
      else (let (s', rest', log) = tickLoop w now (Suc i) s rest in (s', task # rest', log)))"

text \<open>
  One \<open>tick\<close>. Its inputs from outside: \<open>now\<close> and \<open>nowDay\<close> (\<open>time.Now()\<close> and its
  \<open>Day()\<close>), what \<open>setupDailyTasks\<close> reads should the day have changed, and the
  collaborators' answers for each task.
\<close>

record ticking =
  now :: time
  nowDay :: int
  rebuild :: daily
  world :: "nat \<Rightarrow> collaborators"

text \<open>The first block of \<open>tick\<close>: the day-change test, the two resets and the rebuild.\<close>

definition rollover :: "ticking \<Rightarrow> Scheduler \<Rightarrow> Scheduler" where
  "rollover k s =
     (if nowDay k \<noteq> currentDay s
      then setupDailyTasks (rebuild k)
             (s\<lparr>trainMonitor := TrainMonitor_ResetNotificationState (trainMonitor s),
                tubeMonitor := TubeMonitor_ResetNotificationState (tubeMonitor s)\<rparr>)
      else s)"

definition tick :: "ticking \<Rightarrow> Scheduler \<Rightarrow> Scheduler \<times> execution list" where
  "tick k s =
     (let s1 = rollover k s;
          (s2, ts, log) = tickLoop (world k) (now k) 0 s1 (tasks s1)
      in (s2\<lparr>tasks := ts\<rparr>, log))"

section \<open>Observations and runs\<close>

text \<open>
  The vocabulary of the statements below. An observation is one call of
  \<open>processService\<close>: the service the search matched, the route, the mode flag and the
  transport's answers. \<open>observeAll\<close> makes the calls in order, each on the memory the one
  before left; its result is the last memory and, for each call, what it sent.
\<close>

record observation =
  transport :: pushover
  observed :: Service
  origin :: string
  destination :: string
  always :: bool

definition observe :: "TrainMonitor \<Rightarrow> observation \<Rightarrow> TrainMonitor outcome" where
  "observe m ob =
     processService (transport ob) m (observed ob) (origin ob) (destination ob) (always ob)"

fun observeAll :: "TrainMonitor \<Rightarrow> observation list \<Rightarrow> TrainMonitor \<times> notification list list" where
  "observeAll m [] = (m, [])"
| "observeAll m (ob # obs) =
     (let r = observe m ob; (m', outs) = observeAll (st r) obs in (m', sent r # outs))"

definition isCancelled :: "Service \<Rightarrow> bool" where
  "isCancelled svc =
     (DisplayAs (LocationDetail svc) = ''CANCELLED_CALL'' \<or> DisplayAs (LocationDetail svc) = ''CANCELLED'')"

fun isTrainDelay :: "notification \<Rightarrow> bool" where
  "isTrainDelay (SendTrainDelay trainID frm dest delayMinutes expectedTime platform) = True"
| "isTrainDelay n = False"

text \<open>The buckets of the delay notifications for service \<open>u\<close> among some notifier calls.\<close>

fun delayBucketsFor :: "string \<Rightarrow> notification list \<Rightarrow> int list" where
  "delayBucketsFor u [] = []"
| "delayBucketsFor u (SendTrainDelay trainID frm dest delayMinutes expectedTime platform # ns) =
     (if trainID = u then delayBucket delayMinutes # delayBucketsFor u ns
      else delayBucketsFor u ns)"
| "delayBucketsFor u (n # ns) = delayBucketsFor u ns"

text \<open>The buckets notified for service \<open>u\<close> by the gated observations of a run, in order.\<close>

fun gatedBuckets :: "string \<Rightarrow> TrainMonitor \<Rightarrow> observation list \<Rightarrow> int list" where
  "gatedBuckets u m [] = []"
| "gatedBuckets u m (ob # obs) =
     (let r = observe m ob in
      (if always ob then [] else delayBucketsFor u (sent r)) @ gatedBuckets u (st r) obs)"

fun isCancellationFor :: "string \<Rightarrow> notification \<Rightarrow> bool" where
  "isCancellationFor u (SendTrainCancellation trainID frm dest reason) = (trainID = u)"
| "isCancellationFor u n = False"

text \<open>
  Service matching as the specification words it: the first service whose
  scheduled-departure string equals, or is a textual prefix of, the target departure time.
\<close>

definition specMatchingService :: "Service list \<Rightarrow> string \<Rightarrow> Service option" where
  "specMatchingService services targetTime =
     find (\<lambda>svc. GbttBookedDeparture (LocationDetail svc) = targetTime
                 \<or> prefix (GbttBookedDeparture (LocationDetail svc)) targetTime) services"

text \<open>A run of ticks: each tick works on the scheduler the one before left; the result is
  the last scheduler and the executions of each tick.\<close>

fun ticks :: "Scheduler \<Rightarrow> ticking list \<Rightarrow> Scheduler \<times> execution list list" where
  "ticks s [] = (s, [])"
| "ticks s (k # ks) =
     (let (s1, log) = tick k s; (s', logs) = ticks s1 ks in (s', log # logs))"

text \<open>The positions of the tasks a tick executed.\<close>

definition executedAt :: "execution list \<Rightarrow> nat set" where
  "executedAt log = set (map position log)"

text \<open>The time of a tick lies in the tolerance window of a task scheduled at \<open>t\<close>.\<close>

definition inWindow :: "time \<Rightarrow> time \<Rightarrow> bool" where
  "inWindow t n = (0 \<le> n - t \<and> n - t < 2 * Minute)"

text \<open>The journey a task type belongs to, and what the arrival check of that journey
  reports (\<open>arrived\<close>) on the answers \<open>w\<close>.\<close>

definition journeyOf :: "Config \<Rightarrow> TaskType \<Rightarrow> TrainConfig" where
  "journeyOf c ty =
     (if ty = TaskEveningDelayCheck \<or> ty = TaskEveningArrivalCheck \<or> ty = TaskEveningStatusUpdate
      then EveningTrain c else MorningTrain c)"

definition isArrivalCheck :: "TaskType \<Rightarrow> bool" where
  "isArrivalCheck ty = (ty = TaskMorningArrivalCheck \<or> ty = TaskEveningArrivalCheck)"

definition reportsArrived :: "collaborators \<Rightarrow> Scheduler \<Rightarrow> TaskType \<Rightarrow> bool" where
  "reportsArrived w s ty =
     fst (CheckArrival (rttClient w) (pushoverApp w) (trainMonitor s)
            (From (journeyOf (cfg s) ty)) (To (journeyOf (cfg s) ty))
            (Departure (journeyOf (cfg s) ty)))"

text \<open>The delay \<open>processService\<close> computes for a service that is not cancelled
  (\<open>delayMins\<close>).\<close>

definition observedDelay :: "Service \<Rightarrow> int" where
  "observedDelay svc =
     (if RealtimeDeparture (LocationDetail svc) \<noteq> '''' \<and> GbttBookedDeparture (LocationDetail svc) \<noteq> ''''
      then calculateDelay (GbttBookedDeparture (LocationDetail svc))
             (RealtimeDeparture (LocationDetail svc))
      else 0)"

text \<open>Observation \<open>ob\<close> sees service \<open>u\<close> as cancelled.\<close>

definition observesCancelled :: "string \<Rightarrow> observation \<Rightarrow> bool" where
  "observesCancelled u ob = (isCancelled (observed ob) \<and> ServiceUid (observed ob) = u)"

text \<open>The test \<open>tick\<close> makes on each task: not done for good, and inside its window.\<close>

definition due :: "time \<Rightarrow> Task \<Rightarrow> bool" where
  "due n task = (\<not> (Executed task \<and> \<not> Repeating task) \<and> isWithinWindow (Time task) n (2 * Minute))"

text \<open>A task after the visit of a tick at time \<open>n\<close>, the collaborators answering \<open>w\<close>.\<close>

definition nextTask :: "collaborators \<Rightarrow> Scheduler \<Rightarrow> time \<Rightarrow> Task \<Rightarrow> Task" where
  "nextTask w s n task = (if due n task then fst (snd (executeTask w s task)) else task)"




section \<open>Example scenarios\<close>

text \<open>A service scheduled at 07:20 whose realtime departure is \<open>rt\<close>, and its observation
  in gated mode on the route WIN to WAT with a transport that accepts every message.\<close>

definition delayedService :: "string \<Rightarrow> Service" where
  "delayedService rt =
     \<lparr>ServiceUid = ''W12345'',
      LocationDetail = \<lparr>GbttBookedDeparture = ''0720'', RealtimeDeparture = rt, Platform = ''4'',
                        DisplayAs = ''CALL'', CancelReasonShortText = ''''\<rparr>\<rparr>"

definition accepting :: pushover where
  "accepting n = True"

definition gatedObservation :: "string \<Rightarrow> observation" where
  "gatedObservation rt =
     \<lparr>transport = accepting, observed = delayedService rt, origin = ''WIN'',
      destination = ''WAT'', always = False\<rparr>"

text \<open>A service known only by its uid and its booked departure string, and a line status.\<close>

definition bookedService :: "string \<Rightarrow> string \<Rightarrow> Service" where
  "bookedService uid booked =
     \<lparr>ServiceUid = uid,
      LocationDetail = \<lparr>GbttBookedDeparture = booked, RealtimeDeparture = '''', Platform = '''',
                        DisplayAs = ''CALL'', CancelReasonShortText = ''''\<rparr>\<rparr>"

definition lineStatus :: "int \<Rightarrow> string \<Rightarrow> string \<Rightarrow> error + LineStatus" where
  "lineStatus severity description reason =
     Inr \<lparr>LineStatuses = [\<lparr>StatusSeverity = severity, StatusSeverityDescription = description,
                            Reason = reason\<rparr>]\<rparr>"

text \<open>A search answer in which no service is booked at 07:20.\<close>

definition unmatchedSearch :: rtt where
  "unmatchedSearch =
     \<lparr>Search = Inr (Some \<lparr>Services = [bookedService ''P11111'' '''',
                                         bookedService ''W12345'' ''0725'']\<rparr>),
      GetService = Inl ServiceDetailError\<rparr>"

text \<open>
  A scheduler on day 14 of the month holding one task, collaborators that all fail,
  and a tick at a given instant of that day. Instants are counted from the local midnight of
  the day, so 07:00 is \<open>420 * Minute\<close>.
\<close>

definition exampleConfig :: Config where
  "exampleConfig =
     \<lparr>MorningTrain = \<lparr>From = ''WIN'', To = ''WAT'', Departure = ''0720'', Days = []\<rparr>,
      EveningTrain = \<lparr>From = ''WAT'', To = ''WIN'', Departure = ''1635'', Days = []\<rparr>\<rparr>"

definition failingRtt :: rtt where
  "failingRtt = \<lparr>Search = Inl SearchError, GetService = Inl ServiceDetailError\<rparr>"

definition failingWorld :: collaborators where
  "failingWorld = \<lparr>rttClient = failingRtt, tflClient = Inl LineStatusError, pushoverApp = accepting\<rparr>"

definition exampleDaily :: daily where
  "exampleDaily =
     \<lparr>today = 14, weekday = ''Wednesday'', ToLower = (\<lambda>s. s),
      localDate = (\<lambda>h m. (int h * 60 + int m) * Minute), lookup = failingRtt\<rparr>"

definition tickAt :: "time \<Rightarrow> ticking" where
  "tickAt n = \<lparr>now = n, nowDay = 14, rebuild = exampleDaily, world = (\<lambda>i. failingWorld)\<rparr>"

definition oneTaskScheduler :: "Config \<Rightarrow> Task \<Rightarrow> Scheduler" where
  "oneTaskScheduler c task =
     (NewScheduler c NewTrainMonitor NewTubeMonitor)\<lparr>tasks := [task], currentDay := 14\<rparr>"

text \<open>Collaborators whose answers show service W12345, booked at 07:20, arrived at WAT, and a
  tick of day 14 on which every task meets them.\<close>

definition arrivedWorld :: collaborators where
  "arrivedWorld =
     \<lparr>rttClient =
        \<lparr>Search = Inr (Some \<lparr>Services = [bookedService ''W12345'' ''0720'']\<rparr>),
         GetService = Inr \<lparr>Locations =
           [\<lparr>CRS = ''WIN'', GbttBookedArrival = '''', RealtimeArrival = '''',
              RealtimeArrivalActual = False\<rparr>,
            \<lparr>CRS = ''WAT'', GbttBookedArrival = ''0828'', RealtimeArrival = ''0830'',
              RealtimeArrivalActual = True\<rparr>]\<rparr>\<rparr>,
      tflClient = Inl LineStatusError, pushoverApp = accepting\<rparr>"

definition arrivedTickAt :: "time \<Rightarrow> ticking" where
  "arrivedTickAt n = \<lparr>now = n, nowDay = 14, rebuild = exampleDaily, world = (\<lambda>i. arrivedWorld)\<rparr>"

definition arrivalTask :: "time \<Rightarrow> Task" where
  "arrivalTask t = (mkTask TaskMorningArrivalCheck t)\<lparr>Repeating := True\<rparr>"

text \<open>A tick on the next day, day 15 of the month.\<close>

definition nextDayTickAt :: "time \<Rightarrow> ticking" where
  "nextDayTickAt n =
     \<lparr>now = n, nowDay = 15, rebuild = exampleDaily\<lparr>today := 15\<rparr>, world = (\<lambda>i. failingWorld)\<rparr>"

text \<open>Service W12345 seen as cancelled, without a reason, in either mode.\<close>

definition cancelledObservation :: "bool \<Rightarrow> observation" where
  "cancelledObservation mode =
     \<lparr>transport = accepting,
      observed = \<lparr>ServiceUid = ''W12345'',
                   LocationDetail = \<lparr>GbttBookedDeparture = ''0720'', RealtimeDeparture = '''',
                                     Platform = '''', DisplayAs = ''CANCELLED_CALL'',
                                     CancelReasonShortText = ''''\<rparr>\<rparr>,
      origin = ''WIN'', destination = ''WAT'', always = mode\<rparr>"




section \<open>Parsing and the delay computation\<close>

lemma digitVal_le: "isDigit c \<Longrightarrow> digitVal c \<le> 9"
  by (auto simp: isDigit_def digitVal_def)

lemma atoi_digits_two:
  assumes "length s \<le> 2" and "atoi_digits 0 s = Some n"
  shows "n \<le> 99"
proof (cases s)
  case Nil
  with assms show ?thesis by simp
next
  case (Cons a r)
  note outer = Cons
  show ?thesis
  proof (cases r)
    case Nil
    with outer assms have "isDigit a" "n = digitVal a" by (auto split: if_splits)
    with digitVal_le [of a] show ?thesis by simp
  next
    case (Cons b r')
    with outer assms have r': "r' = []" by simp
    with outer Cons assms have "isDigit a" "isDigit b" "n = digitVal a * 10 + digitVal b"
      by (auto split: if_splits)
    with digitVal_le [of a] digitVal_le [of b] show ?thesis by simp
  qed
qed

lemma Atoi_two:
  assumes "length s \<le> 2" and "Atoi s = Some v"
  shows "- 99 \<le> v \<and> v \<le> 99"
proof (cases s)
  case Nil
  with assms show ?thesis by (simp add: Atoi_def)
next
  case (Cons c cs)
  let ?s = "if c = CHR ''-'' \<or> c = CHR ''+'' then cs else s"
  have len: "length ?s \<le> 2" using assms(1) Cons by auto
  from assms(2) Cons obtain n where n: "atoi_digits 0 ?s = Some n"
    and v: "v = (if c = CHR ''-'' then - int n else int n)"
    by (auto simp: Atoi_def Let_def split: if_splits option.splits)
  from atoi_digits_two [OF len n] have "n \<le> 99" .
  with v show ?thesis by auto
qed

lemma parseHHMM_Inr:
  assumes "parseHHMM s = Inr t"
  shows "\<exists>h m. Atoi (take 2 (removeColons s)) = Some h \<and>
               Atoi (take 2 (drop 2 (removeColons s))) = Some m \<and>
               - 99 \<le> h \<and> h \<le> 99 \<and> - 99 \<le> m \<and> m \<le> 99 \<and> t = (60 * h + m) * Minute"
proof -
  from assms obtain h m where h: "Atoi (take 2 (removeColons s)) = Some h"
    and m: "Atoi (take 2 (drop 2 (removeColons s))) = Some m"
    and t: "t = h * (60 * Minute) + m * Minute"
    by (auto simp: parseHHMM_def Let_def split: if_splits option.splits)
  have "- 99 \<le> h \<and> h \<le> 99" by (rule Atoi_two [OF _ h]) simp
  moreover have "- 99 \<le> m \<and> m \<le> 99" by (rule Atoi_two [OF _ m]) simp
  moreover have "t = (60 * h + m) * Minute" using t by (simp add: algebra_simps)
  ultimately show ?thesis using h m by blast
qed

lemma Sub_small: "\<bar>t - u\<bar> < 2 ^ 62 \<Longrightarrow> Sub t u = t - u"
  by (auto simp: Sub_def maxDuration_def minDuration_def)

lemma intMinutes_whole: "0 \<le> k \<Longrightarrow> intMinutes (k * Minute) = k"
proof (cases "k = 0")
  case True
  then show ?thesis by (simp add: intMinutes_def)
next
  case False
  assume "0 \<le> k"
  with False have "0 < k" by simp
  then show ?thesis
    by (simp add: intMinutes_def Minute_def signed_divide_int_def sgn_mult abs_mult)
qed

lemma calculateDelay_parsed:
  assumes "parseHHMM scheduled = Inr schedTime" and "parseHHMM actual = Inr actualTime"
  shows "Minute dvd schedTime \<and> Minute dvd actualTime \<and>
         calculateDelay scheduled actual = max 0 (actualTime div Minute - schedTime div Minute) \<and>
         0 \<le> calculateDelay scheduled actual"
proof -
  from parseHHMM_Inr [OF assms(1)] obtain hs ms where
    s: "- 99 \<le> hs" "hs \<le> 99" "- 99 \<le> ms" "ms \<le> 99" "schedTime = (60 * hs + ms) * Minute"
    by blast
  from parseHHMM_Inr [OF assms(2)] obtain ha ma where
    a: "- 99 \<le> ha" "ha \<le> 99" "- 99 \<le> ma" "ma \<le> 99" "actualTime = (60 * ha + ma) * Minute"
    by blast
  define ks where "ks = 60 * hs + ms"
  define ka where "ka = 60 * ha + ma"
  have bounds: "\<bar>ka - ks\<bar> \<le> 20000" using s a by (simp add: ks_def ka_def)
  have st: "schedTime = ks * Minute" and at: "actualTime = ka * Minute"
    using s a by (simp_all add: ks_def ka_def)
  have diff: "actualTime - schedTime = (ka - ks) * Minute"
    by (simp add: st at algebra_simps)
  have "\<bar>actualTime - schedTime\<bar> = \<bar>ka - ks\<bar> * \<bar>Minute\<bar>"
    unfolding diff by (rule abs_mult)
  also have "\<dots> \<le> 20000 * \<bar>Minute\<bar>"
    using bounds by (rule mult_right_mono) simp
  also have "\<dots> < 2 ^ 62" by (simp add: Minute_def)
  finally have "\<bar>actualTime - schedTime\<bar> < 2 ^ 62" .
  then have sub: "Sub actualTime schedTime = (ka - ks) * Minute"
    by (simp add: Sub_small diff)
  have Mpos: "0 < Minute" by (simp add: Minute_def)
  have neg: "(ka - ks) * Minute < 0 \<longleftrightarrow> ka < ks"
    using Mpos by (simp add: mult_less_0_iff)
  have cd: "calculateDelay scheduled actual = max 0 (ka - ks)"
    using assms sub neg intMinutes_whole [of "ka - ks"]
    by (auto simp: calculateDelay_def Let_def max_def)
  have "schedTime div Minute = ks" "actualTime div Minute = ka"
    using Mpos by (simp_all add: st at)
  with cd show ?thesis by (simp add: st at)
qed

text \<open>
  Claim C9. When the scheduled and the realtime departure strings both parse as HHMM times,
  both instants are whole minutes and the delay \<open>calculateDelay\<close> computes is the realtime
  minute minus the scheduled minute, floored at zero: a negative difference (a realtime time
  past midnight against a scheduled time before it) gives 0, and the delay is never negative.
\<close>

theorem calculateDelay_floored_difference:
  assumes "parseHHMM scheduled = Inr schedTime" and "parseHHMM actual = Inr actualTime"
  shows "Minute dvd schedTime \<and> Minute dvd actualTime \<and>
         calculateDelay scheduled actual = max 0 (actualTime div Minute - schedTime div Minute) \<and>
         0 \<le> calculateDelay scheduled actual"
  using assms by (rule calculateDelay_parsed)

theorem calculateDelay_floored_difference_witness:
  "parseHHMM ''2350'' = Inr (1430 * Minute) \<and> parseHHMM ''0010'' = Inr (10 * Minute) \<and>
   calculateDelay ''2350'' ''0010'' = 0 \<and> calculateDelay ''0720'' ''07:35'' = 15"
proof -
  have p1: "parseHHMM ''2350'' = Inr (1430 * Minute)" by code_simp
  have p2: "parseHHMM ''0010'' = Inr (10 * Minute)" by code_simp
  have p3: "parseHHMM ''0720'' = Inr (440 * Minute)" by code_simp
  have p4: "parseHHMM ''07:35'' = Inr (455 * Minute)" by code_simp
  have M: "0 < Minute" by (simp add: Minute_def)
  show ?thesis
    using calculateDelay_floored_difference [OF p1 p2] calculateDelay_floored_difference [OF p3 p4] p1 p2 M
    by simp
qed

lemma parseHHMM_fails_iff:
  "isl (parseHHMM s) \<longleftrightarrow>
     length (removeColons s) < 4 \<or> Atoi (take 2 (removeColons s)) = None
       \<or> Atoi (take 2 (drop 2 (removeColons s))) = None"
  by (auto simp: parseHHMM_def Let_def split: option.splits)

lemma Atoi_two_bytes:
  "Atoi [a, b] \<noteq> None \<longleftrightarrow> (isDigit a \<or> a = CHR ''+'' \<or> a = CHR ''-'') \<and> isDigit b"
proof -
  have plus: "\<not> isDigit CHR ''+''" and minus: "\<not> isDigit CHR ''-''"
    by (simp_all add: isDigit_def)
  have small: "isDigit a \<Longrightarrow> isDigit b \<Longrightarrow> int (digitVal a * 10 + digitVal b) < 2 ^ 63" 
    using digitVal_le [of a] digitVal_le [of b] by simp
  have small1: "isDigit b \<Longrightarrow> int (digitVal b) < 2 ^ 63"
    using digitVal_le [of b] by simp
  show ?thesis
    using plus minus small small1
    by (auto simp: Atoi_def Let_def split: option.splits if_splits)
qed

lemma calculateDelay_fail:
  "isl (parseHHMM scheduled) \<or> isl (parseHHMM actual) \<Longrightarrow> calculateDelay scheduled actual = 0"
  by (auto simp: calculateDelay_def isl_def split: sum.splits)

lemma handleCancellation_no_delay: "filter isTrainDelay (sent (handleCancellation app m svc frm dest)) = []"
  by (simp add: handleCancellation_def Let_def silent_def notify_def)


section \<open>The journey monitor\<close>

lemma calculateDelay_nonneg: "0 \<le> calculateDelay scheduled actual"
proof (cases "isl (parseHHMM scheduled) \<or> isl (parseHHMM actual)")
  case True
  then show ?thesis by (auto simp: calculateDelay_def isl_def split: sum.splits)
next
  case False
  then obtain ts ta where "parseHHMM scheduled = Inr ts" "parseHHMM actual = Inr ta"
    by (cases "parseHHMM scheduled"; cases "parseHHMM actual") auto
  from calculateDelay_parsed [OF this] show ?thesis by simp
qed

lemma delayBucket_nonneg: "0 \<le> d \<Longrightarrow> 0 \<le> delayBucket d"
  by (simp add: delayBucket_def signed_divide_int_def sgn_if)

lemma delayBucket_nonneg_eq: "0 \<le> d \<Longrightarrow> delayBucket d = d div 5 * 5"
  by (simp add: delayBucket_def signed_divide_int_def sgn_if)

lemma readInt_upd: "readInt (f(k \<mapsto> v)) u = (if u = k then v else readInt f u)"
  by (simp add: readInt_def)

lemma readBool_upd: "readBool (f(k \<mapsto> v)) u = (if u = k then v else readBool f u)"
  by (simp add: readBool_def)

lemma handleDelay_sent:
  "sent (handleDelay app m svc frm dest d) =
     (if delayBucket d > readInt (notifiedDelays m) (ServiceUid svc)
      then [SendTrainDelay (ServiceUid svc) frm dest d (RealtimeDeparture (LocationDetail svc))
              (if Platform (LocationDetail svc) = '''' then ''TBC'' else Platform (LocationDetail svc))]
      else [])"
  by (simp add: handleDelay_def Let_def silent_def notify_def)

lemma handleDelay_st:
  "st (handleDelay app m svc frm dest d) =
     (if delayBucket d > readInt (notifiedDelays m) (ServiceUid svc)
      then m\<lparr>notifiedDelays := (notifiedDelays m)(ServiceUid svc \<mapsto> delayBucket d)\<rparr>
      else m)"
  by (simp add: handleDelay_def Let_def silent_def notify_def)

lemma handleCancellation_sent:
  "sent (handleCancellation app m svc frm dest) =
     (if readBool (notifiedCancels m) (ServiceUid svc) then []
      else [SendTrainCancellation (ServiceUid svc) frm dest
              (if CancelReasonShortText (LocationDetail svc) = '''' then ''No reason provided''
               else CancelReasonShortText (LocationDetail svc))])"
  by (simp add: handleCancellation_def Let_def silent_def notify_def)

lemma handleCancellation_st:
  "st (handleCancellation app m svc frm dest) =
     (if readBool (notifiedCancels m) (ServiceUid svc) then m
      else m\<lparr>notifiedCancels := (notifiedCancels m)(ServiceUid svc \<mapsto> True)\<rparr>)"
  by (simp add: handleCancellation_def Let_def silent_def notify_def)

text \<open>What \<open>processService\<close> does, by cases.\<close>

lemma processService_cancelled:
  "isCancelled svc \<Longrightarrow> processService app m svc frm dest a = handleCancellation app m svc frm dest"
  by (simp add: processService_def isCancelled_def Let_def)

lemma processService_gated:
  "\<not> isCancelled svc \<Longrightarrow>
   processService app m svc frm dest False =
     (if observedDelay svc > 0 then handleDelay app m svc frm dest (observedDelay svc)
      else silent m None)"
  by (simp add: processService_def isCancelled_def observedDelay_def Let_def)

lemma processService_always:
  "\<not> isCancelled svc \<Longrightarrow>
   st (processService app m svc frm dest True) = m \<and>
   filter (isCancellationFor u) (sent (processService app m svc frm dest True)) = []"
  by (simp add: processService_def isCancelled_def Let_def notify_def)

lemma observedDelay_nonneg: "0 \<le> observedDelay svc"
  by (simp add: observedDelay_def calculateDelay_nonneg)

text \<open>One observation, seen from service \<open>u\<close>: either nothing is notified in gated mode
  and the mark stays, or exactly the new mark is notified and it is above the old one.\<close>

lemma observe_mark_step:
  fixes u m ob
  defines "r \<equiv> observe m ob"
  defines "fired \<equiv> (if always ob then [] else delayBucketsFor u (sent r))"
  shows "(fired = [] \<and> readInt (notifiedDelays (st r)) u = readInt (notifiedDelays m) u)
       \<or> (fired = [readInt (notifiedDelays (st r)) u]
           \<and> readInt (notifiedDelays m) u < readInt (notifiedDelays (st r)) u)"
proof (cases "isCancelled (observed ob)")
  case True
  then show ?thesis
    by (simp add: r_def fired_def observe_def processService_cancelled
        handleCancellation_sent handleCancellation_st)
next
  case False
  show ?thesis
  proof (cases "always ob")
    case True
    with False processService_always [of "observed ob"] show ?thesis
      by (simp add: r_def fired_def observe_def)
  next
    case gated: False
    with False show ?thesis
      by (simp add: r_def fired_def observe_def processService_gated handleDelay_sent
          handleDelay_st readInt_upd silent_def)
  qed
qed

lemma observeAll_Cons:
  "fst (observeAll m (ob # obs)) = fst (observeAll (st (observe m ob)) obs)"
  "snd (observeAll m (ob # obs)) = sent (observe m ob) # snd (observeAll (st (observe m ob)) obs)"
  by (simp_all add: Let_def split: prod.splits)

lemma gatedBuckets_run:
  "sorted_wrt (<) (gatedBuckets u m obs)
   \<and> (\<forall>b\<in>set (gatedBuckets u m obs). readInt (notifiedDelays m) u < b)
   \<and> readInt (notifiedDelays (fst (observeAll m obs))) u
       = Max (insert (readInt (notifiedDelays m) u) (set (gatedBuckets u m obs)))"
proof (induction obs arbitrary: m)
  case Nil
  show ?case by simp
next
  case (Cons ob obs)
  define r where "r = observe m ob"
  define fired where "fired = (if always ob then [] else delayBucketsFor u (sent r))"
  define mark where "mark = readInt (notifiedDelays m) u"
  define mark' where "mark' = readInt (notifiedDelays (st r)) u"
  define rest where "rest = gatedBuckets u (st r) obs"
  have gb: "gatedBuckets u m (ob # obs) = fired @ rest"
    by (simp add: r_def fired_def rest_def Let_def)
  have IH: "sorted_wrt (<) rest" "\<forall>b\<in>set rest. mark' < b"
    "readInt (notifiedDelays (fst (observeAll (st r) obs))) u = Max (insert mark' (set rest))"
    using Cons.IH [of "st r"] by (simp_all add: rest_def mark'_def)
  have "fst (observeAll m (ob # obs)) = fst (observeAll (st r) obs)"
    unfolding r_def by (rule observeAll_Cons(1))
  then have fin: "readInt (notifiedDelays (fst (observeAll m (ob # obs)))) u = Max (insert mark' (set rest))"
    using IH(3) by (simp only:)
  from observe_mark_step [where u = u and m = m and ob = ob]
  consider (quiet) "fired = []" "mark' = mark" | (fire) "fired = [mark']" "mark < mark'"
    unfolding fired_def mark_def mark'_def r_def by blast
  then have goal: "sorted_wrt (<) (fired @ rest) \<and> (\<forall>b\<in>set (fired @ rest). mark < b)
      \<and> Max (insert mark' (set rest)) = Max (insert mark (set (fired @ rest)))"
  proof cases
    case quiet
    with IH show ?thesis by simp
  next
    case fire
    have "Max (insert mark (set (fired @ rest))) = Max (insert mark' (set rest))"
    proof -
      have "insert mark (set (fired @ rest)) = insert mark (insert mark' (set rest))"
        using fire by auto
      moreover have "Max (insert mark (insert mark' (set rest))) = max mark (Max (insert mark' (set rest)))"
        by (rule Max_insert) simp_all
      moreover have "max mark (Max (insert mark' (set rest))) = Max (insert mark' (set rest))"
      proof (rule max_absorb2)
        have "mark' \<le> Max (insert mark' (set rest))" by simp
        with fire(2) show "mark \<le> Max (insert mark' (set rest))" by linarith
      qed
      ultimately show ?thesis by (simp only:)
    qed
    moreover have "sorted_wrt (<) (fired @ rest)"
      using fire IH by (simp add: sorted_wrt_append)
    moreover have "\<forall>b\<in>set (fired @ rest). mark < b"
      using fire IH by auto
    ultimately show ?thesis by simp
  qed
  then show ?case by (simp only: gb fin mark_def) blast
qed

text \<open>
  Claim C10. When the scheduled or the realtime departure string fails \<open>parseHHMM\<close>
  (lemma \<open>parseHHMM_fails_iff\<close>: fewer than four bytes once the colons are removed, or an
  hour or minute field that \<open>Atoi\<close> rejects), \<open>calculateDelay\<close> returns 0 and no error.
  A service carrying these strings therefore never produces a delay notification: in either
  mode \<open>processService\<close> makes no \<open>SendTrainDelay\<close> call, and in gated mode a service
  that is not cancelled sends nothing and leaves the memory as it was.
\<close>

theorem malformed_time_is_zero_delay:
  assumes "isl (parseHHMM scheduled) \<or> isl (parseHHMM actual)"
  shows "calculateDelay scheduled actual = 0
         \<and> (GbttBookedDeparture (LocationDetail svc) = scheduled
              \<and> RealtimeDeparture (LocationDetail svc) = actual \<longrightarrow>
            filter isTrainDelay (sent (processService app m svc frm dest alwaysNotify)) = []
            \<and> (\<not> isCancelled svc \<longrightarrow> processService app m svc frm dest False = silent m None))"
  using calculateDelay_fail [OF assms] handleCancellation_no_delay [of app m svc frm dest]
  by (auto simp: processService_def Let_def silent_def notify_def isCancelled_def)

theorem malformed_time_is_zero_delay_witness:
  "isl (parseHHMM ''07x5'') \<and> calculateDelay ''0720'' ''07x5'' = 0
   \<and> processService accepting NewTrainMonitor (delayedService ''07x5'') ''WIN'' ''WAT'' False
       = silent NewTrainMonitor None"
proof -
  have bad: "isl (parseHHMM ''07x5'')" by code_simp
  have fields: "GbttBookedDeparture (LocationDetail (delayedService ''07x5'')) = ''0720''"
    "RealtimeDeparture (LocationDetail (delayedService ''07x5'')) = ''07x5''"
    "\<not> isCancelled (delayedService ''07x5'')"
    by (simp_all add: delayedService_def isCancelled_def)
  from bad have "isl (parseHHMM ''0720'') \<or> isl (parseHHMM ''07x5'')" by simp
  from malformed_time_is_zero_delay
         [OF this, of "delayedService ''07x5''" accepting NewTrainMonitor "''WIN''" "''WAT''" False]
       bad fields
  show ?thesis by blast
qed

text \<open>
  Claim C1. In gated mode a delay check notifies exactly when the 5-minute bucket of the
  observed delay (\<open>delayMins / 5 * 5\<close>) is strictly above the mark stored for the service,
  and then the mark becomes that bucket; otherwise the memory is unchanged. The same holds for
  \<open>processService\<close> on a service that is not cancelled, the mark being non-negative as it is
  in every memory reached from a new monitor. Over any run of observations, of any services
  and in any mix of modes, the buckets notified for one service by the gated observations
  are strictly increasing and all above the mark at the start, so a later smaller delay never
  notifies a lower bucket; and from a new monitor the stored mark is the highest
  bucket notified so far (0 when none was).
\<close>

theorem gated_delay_notifies_on_higher_bucket_only:
  "(sent (handleDelay app m svc frm dest delayMins) \<noteq> []
      \<longleftrightarrow> readInt (notifiedDelays m) (ServiceUid svc) < delayBucket delayMins)
   \<and> (readInt (notifiedDelays m) (ServiceUid svc) < delayBucket delayMins \<longrightarrow>
        readInt (notifiedDelays (st (handleDelay app m svc frm dest delayMins))) (ServiceUid svc)
          = delayBucket delayMins)
   \<and> (\<not> readInt (notifiedDelays m) (ServiceUid svc) < delayBucket delayMins \<longrightarrow>
        st (handleDelay app m svc frm dest delayMins) = m)
   \<and> (\<not> isCancelled svc \<and> 0 \<le> readInt (notifiedDelays m) (ServiceUid svc) \<longrightarrow>
        (filter isTrainDelay (sent (processService app m svc frm dest False)) \<noteq> []
           \<longleftrightarrow> readInt (notifiedDelays m) (ServiceUid svc) < delayBucket (observedDelay svc)))
   \<and> sorted_wrt (<) (gatedBuckets u m obs)
   \<and> (\<forall>b\<in>set (gatedBuckets u m obs). readInt (notifiedDelays m) u < b)
   \<and> readInt (notifiedDelays (fst (observeAll NewTrainMonitor obs))) u
        = Max (insert 0 (set (gatedBuckets u NewTrainMonitor obs)))"
proof -
  have one: "sent (handleDelay app m svc frm dest delayMins) \<noteq> []
      \<longleftrightarrow> readInt (notifiedDelays m) (ServiceUid svc) < delayBucket delayMins"
    by (simp add: handleDelay_sent)
  have two: "readInt (notifiedDelays m) (ServiceUid svc) < delayBucket delayMins \<longrightarrow>
        readInt (notifiedDelays (st (handleDelay app m svc frm dest delayMins))) (ServiceUid svc)
          = delayBucket delayMins"
    by (simp add: handleDelay_st readInt_upd)
  have three: "\<not> readInt (notifiedDelays m) (ServiceUid svc) < delayBucket delayMins \<longrightarrow>
        st (handleDelay app m svc frm dest delayMins) = m"
    by (simp add: handleDelay_st)
  have four: "\<not> isCancelled svc \<and> 0 \<le> readInt (notifiedDelays m) (ServiceUid svc) \<longrightarrow>
        (filter isTrainDelay (sent (processService app m svc frm dest False)) \<noteq> []
           \<longleftrightarrow> readInt (notifiedDelays m) (ServiceUid svc) < delayBucket (observedDelay svc))"
  proof (intro impI, elim conjE)
    assume nc: "\<not> isCancelled svc" and nn: "0 \<le> readInt (notifiedDelays m) (ServiceUid svc)"
    show "filter isTrainDelay (sent (processService app m svc frm dest False)) \<noteq> []
           \<longleftrightarrow> readInt (notifiedDelays m) (ServiceUid svc) < delayBucket (observedDelay svc)"
    proof (cases "observedDelay svc > 0")
      case True
      with nc show ?thesis by (simp add: processService_gated handleDelay_sent)
    next
      case False
      with observedDelay_nonneg [of svc] have "observedDelay svc = 0" by simp
      with nc nn show ?thesis by (simp add: processService_gated silent_def delayBucket_def)
    qed
  qed
  have new: "readInt (notifiedDelays NewTrainMonitor) u = 0"
    by (simp add: NewTrainMonitor_def readInt_def)
  from gatedBuckets_run [of u m obs] gatedBuckets_run [of u NewTrainMonitor obs] one two three four
  show ?thesis by (simp only: new) blast
qed

theorem gated_delay_notifies_on_higher_bucket_only_witness:
  "gatedBuckets ''W12345'' NewTrainMonitor
     [gatedObservation ''0735'', gatedObservation ''0738'', gatedObservation ''0741'',
      gatedObservation ''0725''] = [15, 20]
   \<and> readInt (notifiedDelays (fst (observeAll NewTrainMonitor
        [gatedObservation ''0735'', gatedObservation ''0738'', gatedObservation ''0741'',
         gatedObservation ''0725'']))) ''W12345'' = 20
   \<and> sent (handleDelay accepting NewTrainMonitor (delayedService ''0735'') ''WIN'' ''WAT'' 15) \<noteq> []
   \<and> readInt (notifiedDelays (st (handleDelay accepting NewTrainMonitor (delayedService ''0735'')
                                      ''WIN'' ''WAT'' 15))) ''W12345'' = 15
   \<and> filter isTrainDelay
         (sent (processService accepting NewTrainMonitor (delayedService ''0735'') ''WIN'' ''WAT'' False))
       \<noteq> []
   \<and> st (handleDelay accepting
            (st (handleDelay accepting NewTrainMonitor (delayedService ''0735'') ''WIN'' ''WAT'' 15))
            (delayedService ''0738'') ''WIN'' ''WAT'' 18)
       = st (handleDelay accepting NewTrainMonitor (delayedService ''0735'') ''WIN'' ''WAT'' 15)"
proof -
  let ?obs = "[gatedObservation ''0735'', gatedObservation ''0738'', gatedObservation ''0741'',
               gatedObservation ''0725'']"
  let ?m1 = "st (handleDelay accepting NewTrainMonitor (delayedService ''0735'') ''WIN'' ''WAT'' 15)"
  have g: "gatedBuckets ''W12345'' NewTrainMonitor ?obs = [15, 20]"
    by code_simp
  have uid: "ServiceUid (delayedService rt) = ''W12345''" for rt
    by (simp add: delayedService_def)
  have mark0: "readInt (notifiedDelays NewTrainMonitor) ''W12345'' = 0"
    by (simp add: NewTrainMonitor_def readInt_def)
  have b15: "delayBucket 15 = 15" and b18: "delayBucket 18 = 15"
    by (simp_all add: delayBucket_def signed_divide_int_def)
  have nc: "\<not> isCancelled (delayedService ''0735'')"
    by (simp add: isCancelled_def delayedService_def)
  have od: "observedDelay (delayedService ''0735'') = 15" by code_simp
  note T = gated_delay_notifies_on_higher_bucket_only
    [of accepting NewTrainMonitor "delayedService ''0735''" "''WIN''" "''WAT''" 15 "''W12345''" ?obs]
  note T1 = gated_delay_notifies_on_higher_bucket_only
    [of accepting ?m1 "delayedService ''0738''" "''WIN''" "''WAT''" 18 "''W12345''" "[]"]
  from T have "readInt (notifiedDelays (fst (observeAll NewTrainMonitor ?obs))) ''W12345''
        = Max (insert 0 (set (gatedBuckets ''W12345'' NewTrainMonitor ?obs)))"
    by blast
  then have "readInt (notifiedDelays (fst (observeAll NewTrainMonitor ?obs))) ''W12345''
        = Max (insert 0 (set [15, 20]))"
    by (simp only: g)
  then have final: "readInt (notifiedDelays (fst (observeAll NewTrainMonitor ?obs))) ''W12345'' = 20"
    by simp
  from T have fires: "sent (handleDelay accepting NewTrainMonitor (delayedService ''0735'') ''WIN'' ''WAT'' 15) \<noteq> []"
    and mark: "readInt (notifiedDelays ?m1) ''W12345'' = 15"
    and proc: "filter isTrainDelay
         (sent (processService accepting NewTrainMonitor (delayedService ''0735'') ''WIN'' ''WAT'' False))
       \<noteq> []"
    unfolding uid mark0 b15 od using nc by simp_all
  from T1 have keep: "st (handleDelay accepting ?m1 (delayedService ''0738'') ''WIN'' ''WAT'' 18) = ?m1"
    unfolding uid mark b18 by simp
  from g final fires mark proc keep show ?thesis by blast
qed

text \<open>Runs are unfolded one observation at a time by \<open>observeAll_Cons\<close>.\<close>

declare observeAll.simps(2) [simp del]
declare observeAll_Cons [simp]

lemma observe_cancel_latch:
  "readBool (notifiedCancels (st (observe m ob))) u
     = (readBool (notifiedCancels m) u \<or> observesCancelled u ob)"
proof (cases "isCancelled (observed ob)")
  case True
  then show ?thesis
    by (auto simp: observe_def observesCancelled_def processService_cancelled
        handleCancellation_st readBool_upd)
next
  case False
  show ?thesis
  proof (cases "always ob")
    case True
    with False processService_always [of "observed ob"] show ?thesis
      by (simp add: observe_def observesCancelled_def)
  next
    case gated: False
    with False show ?thesis
      by (simp add: observe_def observesCancelled_def processService_gated handleDelay_st silent_def)
  qed
qed

lemma observe_cancel_sent:
  "filter (isCancellationFor u) (sent (observe m ob)) \<noteq> []
     \<longleftrightarrow> observesCancelled u ob \<and> \<not> readBool (notifiedCancels m) u"
  "length (filter (isCancellationFor u) (sent (observe m ob))) \<le> 1"
proof -
  have "(filter (isCancellationFor u) (sent (observe m ob)) \<noteq> []
     \<longleftrightarrow> observesCancelled u ob \<and> \<not> readBool (notifiedCancels m) u)
     \<and> length (filter (isCancellationFor u) (sent (observe m ob))) \<le> 1"
  proof (cases "isCancelled (observed ob)")
    case True
    then show ?thesis
      by (auto simp: observe_def observesCancelled_def processService_cancelled
          handleCancellation_sent)
  next
    case False
    show ?thesis
    proof (cases "always ob")
      case True
      with False processService_always [of "observed ob"] show ?thesis
        by (simp add: observe_def observesCancelled_def)
    next
      case gated: False
      with False show ?thesis
        by (simp add: observe_def observesCancelled_def processService_gated handleDelay_sent
            silent_def)
    qed
  qed
  then show "filter (isCancellationFor u) (sent (observe m ob)) \<noteq> []
     \<longleftrightarrow> observesCancelled u ob \<and> \<not> readBool (notifiedCancels m) u"
    and "length (filter (isCancellationFor u) (sent (observe m ob))) \<le> 1"
    by blast+
qed

lemma observe_cancel_count:
  "length (filter (isCancellationFor u) (sent (observe m ob)))
     = (if observesCancelled u ob \<and> \<not> readBool (notifiedCancels m) u then 1 else 0)"
  using observe_cancel_sent [of u m ob]
  by (cases "filter (isCancellationFor u) (sent (observe m ob))") auto

lemma latch_run:
  "readBool (notifiedCancels (fst (observeAll m obs))) u
     = (readBool (notifiedCancels m) u \<or> (\<exists>ob\<in>set obs. observesCancelled u ob))"
proof (induction obs arbitrary: m)
  case Nil
  show ?case by simp
next
  case (Cons ob obs)
  have "readBool (notifiedCancels (fst (observeAll m (ob # obs)))) u
        = readBool (notifiedCancels (fst (observeAll (st (observe m ob)) obs))) u"
    by (simp only: observeAll_Cons)
  also have "\<dots> = (readBool (notifiedCancels (st (observe m ob))) u
                     \<or> (\<exists>ob\<in>set obs. observesCancelled u ob))"
    by (rule Cons.IH)
  finally show ?case by (auto simp: observe_cancel_latch)
qed

lemma cancellations_run:
  "length (filter (isCancellationFor u) (concat (snd (observeAll m obs))))
     = (if \<not> readBool (notifiedCancels m) u \<and> (\<exists>ob\<in>set obs. observesCancelled u ob)
        then 1 else 0)"
proof (induction obs arbitrary: m)
  case Nil
  show ?case by simp
next
  case (Cons ob obs)
  have "length (filter (isCancellationFor u) (concat (snd (observeAll m (ob # obs)))))
        = length (filter (isCancellationFor u) (sent (observe m ob)))
          + length (filter (isCancellationFor u) (concat (snd (observeAll (st (observe m ob)) obs))))"
    by (simp only: observeAll_Cons concat.simps filter_append length_append)
  also have "\<dots> = (if observesCancelled u ob \<and> \<not> readBool (notifiedCancels m) u then 1 else 0)
        + (if \<not> readBool (notifiedCancels (st (observe m ob))) u
              \<and> (\<exists>ob\<in>set obs. observesCancelled u ob) then 1 else 0)"
    by (simp only: observe_cancel_count Cons.IH)
  finally show ?case by (auto simp: observe_cancel_latch)
qed

lemma observeAll_nth:
  "i < length obs \<Longrightarrow>
   snd (observeAll m obs) ! i = sent (observe (fst (observeAll m (take i obs))) (obs ! i))"
proof (induction obs arbitrary: m i)
  case Nil
  then show ?case by simp
next
  case (Cons ob obs)
  show ?case
  proof (cases i)
    case 0
    then show ?thesis by (simp add: observeAll_Cons(2))
  next
    case (Suc j)
    with Cons.prems have j: "j < length obs" by simp
    have "snd (observeAll m (ob # obs)) ! i = snd (observeAll (st (observe m ob)) obs) ! j"
      by (simp add: observeAll_Cons(2) Suc)
    also have "\<dots> = sent (observe (fst (observeAll (st (observe m ob)) (take j obs))) (obs ! j))"
      by (rule Cons.IH [OF j])
    also have "fst (observeAll (st (observe m ob)) (take j obs)) = fst (observeAll m (take i (ob # obs)))"
      by (simp add: Suc observeAll_Cons(1))
    finally show ?thesis by (simp add: Suc)
  qed
qed

lemma first_cancellation_only:
  assumes "i < length obs"
  shows "filter (isCancellationFor u) (snd (observeAll m obs) ! i) \<noteq> []
     \<longleftrightarrow> observesCancelled u (obs ! i) \<and> \<not> readBool (notifiedCancels m) u
          \<and> (\<forall>j<i. \<not> observesCancelled u (obs ! j))"
proof -
  have "set (take i obs) = (!) obs ` {0..<i}"
    using assms by (simp add: nth_image)
  then have "(\<exists>ob\<in>set (take i obs). observesCancelled u ob) \<longleftrightarrow> (\<exists>j<i. observesCancelled u (obs ! j))"
    by auto
  then show ?thesis
    using assms by (auto simp: observeAll_nth observe_cancel_sent(1) latch_run)
qed

section \<open>Service matching\<close>

lemma HasPrefix_prefix: "HasPrefix s pre \<longleftrightarrow> prefix pre s"
  by (auto simp: HasPrefix_def prefix_def) (metis append_eq_conv_conj)

lemma findMatchingService_find:
  "findMatchingService services targetTime
     = find (\<lambda>svc. prefix targetTime (GbttBookedDeparture (LocationDetail svc))) services"
  by (induction services) (auto simp: HasPrefix_prefix Let_def)


text \<open>
  Claim C7, as worded: the service selected is the first whose scheduled-departure string
  equals or is a textual prefix of the target departure time (\<open>specMatchingService\<close>). The
  code tests the opposite direction, \<open>strings.HasPrefix(bookedDep, targetTime)\<close>. For target
  \<open>0720\<close> and a search result whose first service has no booked departure (the empty string,
  a prefix of every target) and whose second is booked at \<open>0720\<close>, the wording selects the
  first service and the code the second.
\<close>

theorem service_matching_as_worded_counterexample:
  "findMatchingService [bookedService ''P11111'' '''', bookedService ''W12345'' ''0720''] ''0720''
     = Some (bookedService ''W12345'' ''0720'')
   \<and> specMatchingService [bookedService ''P11111'' '''', bookedService ''W12345'' ''0720''] ''0720''
     = Some (bookedService ''P11111'' '''')
   \<and> findMatchingService [bookedService ''P11111'' '''', bookedService ''W12345'' ''0720''] ''0720''
     \<noteq> specMatchingService [bookedService ''P11111'' '''', bookedService ''W12345'' ''0720''] ''0720''"
  by (simp add: specMatchingService_def bookedService_def HasPrefix_def)

text \<open>
  Claim C7, amended: \<open>findMatchingService\<close> selects, in source order, the first service whose
  scheduled-departure string equals the target departure time or begins with it (the target
  is a prefix of the scheduled departure). When the departure time parses, the search
  answers and no service matches, the delay check, the status check and the arrival check
  return without error, send nothing and leave the memory unchanged; the arrival check
  reports not arrived.
\<close>

theorem service_matching_target_is_prefix:
  "findMatchingService services targetTime
     = find (\<lambda>svc. prefix targetTime (GbttBookedDeparture (LocationDetail svc))) services
   \<and> (parseTimeToday departureTime = Inr hm \<and> Search client = Inr (Some resp)
        \<and> findMatchingService (Services resp) departureTime = None \<longrightarrow>
      CheckDelay client app m frm dest departureTime = \<lparr>st = m, sent = [], err = None\<rparr>
      \<and> TrainMonitor_CheckStatus client app m frm dest departureTime = \<lparr>st = m, sent = [], err = None\<rparr>
      \<and> CheckArrival client app m frm dest departureTime = (False, \<lparr>st = m, sent = [], err = None\<rparr>))"
  by (simp add: findMatchingService_find [symmetric] CheckDelay_def TrainMonitor_CheckStatus_def
      CheckArrival_def silent_def)


theorem service_matching_target_is_prefix_witness:
  "CheckDelay unmatchedSearch accepting NewTrainMonitor ''WIN'' ''WAT'' ''0720'' = \<lparr>st = NewTrainMonitor, sent = [], err = None\<rparr>
   \<and> CheckArrival unmatchedSearch accepting NewTrainMonitor ''WIN'' ''WAT'' ''0720'' = (False, \<lparr>st = NewTrainMonitor, sent = [], err = None\<rparr>)"
proof -
  have p: "parseTimeToday ''0720'' = Inr (7, 20)" by code_simp
  have s: "Search unmatchedSearch = Inr (Some \<lparr>Services = [bookedService ''P11111'' '''', bookedService ''W12345'' ''0725'']\<rparr>)"
    by (simp add: unmatchedSearch_def)
  have f: "findMatchingService (Services \<lparr>Services = [bookedService ''P11111'' '''', bookedService ''W12345'' ''0725'']\<rparr>) ''0720'' = None"
    by (simp add: bookedService_def HasPrefix_def)
  from service_matching_target_is_prefix [of "[]" "''0720''" "''0720''" "(7, 20)" unmatchedSearch _ accepting NewTrainMonitor "''WIN''" "''WAT''"] p s f
  show ?thesis by blast
qed

section \<open>The line monitor\<close>

text \<open>
  Claim C6. A line-status check whose fetch succeeds with a status: when the fetched
  (description, reason) pair equals the stored pair nothing is sent; when the pair changed
  but no status has been stored yet (the stored description is empty, the state of a new or
  reset monitor) and the status is good service, nothing is sent; when the pair changed, that
  exception does not apply, and the status is a disruption (severity below 10 and not 6,
  service closed) or a status has been stored before, exactly one disruption alert is sent,
  of high priority, with \<open>No additional details\<close> in place of an empty reason. In the one
  remaining case (first status of the day, neither good service nor a disruption) nothing is
  sent. In every case the stored pair becomes the fetched pair.
\<close>

theorem line_status_check_notifies_on_change:
  fixes app :: pushover and m :: TubeMonitor
  assumes "fetched = Inr status" and "LineStatuses status = currentStatus # others"
  defines "desc \<equiv> StatusSeverityDescription currentStatus"
  defines "reason \<equiv> Reason currentStatus"
  defines "r \<equiv> TubeMonitor_CheckStatus fetched app m"
  shows "(lastStatus m = desc \<and> lastStatusReason m = reason \<longrightarrow> sent r = [])
       \<and> ((lastStatus m \<noteq> desc \<or> lastStatusReason m \<noteq> reason) \<and> lastStatus m = ''''
            \<and> IsGoodService currentStatus \<longrightarrow> sent r = [])
       \<and> ((lastStatus m \<noteq> desc \<or> lastStatusReason m \<noteq> reason)
            \<and> \<not> (lastStatus m = '''' \<and> IsGoodService currentStatus)
            \<and> (HasDisruption currentStatus \<or> lastStatus m \<noteq> '''') \<longrightarrow>
          sent r = [SendTubeDisruption desc (if reason = '''' then ''No additional details'' else reason)]
          \<and> priority (SendTubeDisruption desc (if reason = '''' then ''No additional details'' else reason))
              = PriorityHigh)
       \<and> ((lastStatus m \<noteq> desc \<or> lastStatusReason m \<noteq> reason) \<and> lastStatus m = ''''
            \<and> \<not> IsGoodService currentStatus \<and> \<not> HasDisruption currentStatus \<longrightarrow> sent r = [])
       \<and> lastStatus (st r) = desc \<and> lastStatusReason (st r) = reason
       \<and> IsGoodService currentStatus = (StatusSeverity currentStatus = 10)
       \<and> HasDisruption currentStatus
           = (StatusSeverity currentStatus < 10 \<and> StatusSeverity currentStatus \<noteq> 6)"
  using assms(1,2)
  by (simp add: r_def desc_def reason_def TubeMonitor_CheckStatus_def Let_def silent_def notify_def
      IsGoodService_def HasDisruption_def StatusGoodService_def StatusServiceClosed_def)

theorem line_status_check_notifies_on_change_witness:
  "sent (TubeMonitor_CheckStatus (lineStatus 10 ''Good Service'' '''') accepting NewTubeMonitor) = []
   \<and> sent (TubeMonitor_CheckStatus (lineStatus 5 ''Minor Delays'' '''') accepting
             (st (TubeMonitor_CheckStatus (lineStatus 10 ''Good Service'' '''') accepting NewTubeMonitor)))
       = [SendTubeDisruption ''Minor Delays'' ''No additional details'']
   \<and> sent (TubeMonitor_CheckStatus (lineStatus 5 ''Minor Delays'' '''') accepting
             \<lparr>lastStatus = ''Minor Delays'', lastStatusReason = ''''\<rparr>) = []
   \<and> sent (TubeMonitor_CheckStatus (lineStatus 6 ''Service Closed'' '''') accepting NewTubeMonitor) = []"
proof -
  let ?good = "\<lparr>StatusSeverity = 10, StatusSeverityDescription = ''Good Service'', Reason = ''''\<rparr>"
  let ?minor = "\<lparr>StatusSeverity = 5, StatusSeverityDescription = ''Minor Delays'', Reason = ''''\<rparr>"
  let ?closed = "\<lparr>StatusSeverity = 6, StatusSeverityDescription = ''Service Closed'', Reason = ''''\<rparr>"
  let ?m1 = "st (TubeMonitor_CheckStatus (lineStatus 10 ''Good Service'' '''') accepting NewTubeMonitor)"
  have a: "lineStatus 10 ''Good Service'' '''' = Inr \<lparr>LineStatuses = [?good]\<rparr>"
    and b: "lineStatus 5 ''Minor Delays'' '''' = Inr \<lparr>LineStatuses = [?minor]\<rparr>"
    and c: "lineStatus 6 ''Service Closed'' '''' = Inr \<lparr>LineStatuses = [?closed]\<rparr>"
    by (simp_all add: lineStatus_def)
  have l: "LineStatuses \<lparr>LineStatuses = [?good]\<rparr> = ?good # []"
    "LineStatuses \<lparr>LineStatuses = [?minor]\<rparr> = ?minor # []"
    "LineStatuses \<lparr>LineStatuses = [?closed]\<rparr> = ?closed # []"
    by simp_all
  note first = line_status_check_notifies_on_change
                 [where app = accepting and m = NewTubeMonitor, OF a l(1)]
  note second = line_status_check_notifies_on_change [where app = accepting and m = ?m1, OF b l(2)]
  note third = line_status_check_notifies_on_change
                 [where app = accepting
                    and m = "\<lparr>lastStatus = ''Minor Delays'', lastStatusReason = ''''\<rparr>", OF b l(2)]
  note fourth = line_status_check_notifies_on_change
                  [where app = accepting and m = NewTubeMonitor, OF c l(3)]
  have m1: "lastStatus ?m1 = ''Good Service''" using first by simp
  have "sent (TubeMonitor_CheckStatus (lineStatus 10 ''Good Service'' '''') accepting NewTubeMonitor) = []"
    using first by (simp add: NewTubeMonitor_def IsGoodService_def StatusGoodService_def)
  moreover have "sent (TubeMonitor_CheckStatus (lineStatus 5 ''Minor Delays'' '''') accepting ?m1)
       = [SendTubeDisruption ''Minor Delays'' ''No additional details'']"
    using second m1 by simp
  moreover have "sent (TubeMonitor_CheckStatus (lineStatus 5 ''Minor Delays'' '''') accepting
             \<lparr>lastStatus = ''Minor Delays'', lastStatusReason = ''''\<rparr>) = []"
    using third by simp
  moreover have "sent (TubeMonitor_CheckStatus (lineStatus 6 ''Service Closed'' '''') accepting NewTubeMonitor) = []"
    using fourth
    by (simp add: NewTubeMonitor_def IsGoodService_def HasDisruption_def StatusGoodService_def
        StatusServiceClosed_def)
  ultimately show ?thesis by blast
qed

section \<open>The scheduler\<close>

lemma isWithinWindow_iff: "isWithinWindow t n (2 * Minute) \<longleftrightarrow> inWindow t n"
  by (auto simp: isWithinWindow_def inWindow_def Sub_def Let_def maxDuration_def minDuration_def
      Minute_def)

lemma due_iff: "due n task \<longleftrightarrow> (\<not> Executed task \<or> Repeating task) \<and> inWindow (Time task) n"
  by (auto simp: due_def isWithinWindow_iff)

lemma CheckArrival_st: "st (snd (CheckArrival client app m frm dest dep)) = m"
  by (simp add: CheckArrival_def silent_def notify_def Let_def
      split: sum.splits option.splits)

lemma CheckArrival_arrived_indep:
  "fst (CheckArrival client app m frm dest dep) = fst (CheckArrival client app m' frm dest dep)"
  by (simp add: CheckArrival_def silent_def notify_def Let_def
      split: sum.splits option.splits)

lemma reportsArrived_cfg: "cfg s = cfg s' \<Longrightarrow> reportsArrived w s ty = reportsArrived w s' ty"
  using CheckArrival_arrived_indep [of "rttClient w" "pushoverApp w" "trainMonitor s" _ _ _ "trainMonitor s'"]
  by (simp add: reportsArrived_def)

lemma executeTask_frame:
  "cfg (fst (executeTask w s task)) = cfg s"
  "currentDay (fst (executeTask w s task)) = currentDay s"
  "tasks (fst (executeTask w s task)) = tasks s"
  by (cases "Type task"; simp add: executeTask_def Let_def split: prod.splits)+

lemma executeTask_task:
  fixes w s task
  defines "task' \<equiv> fst (snd (executeTask w s task))"
  defines "arrived \<equiv> isArrivalCheck (Type task) \<and> reportsArrived w s (Type task)"
  shows "Type task' = Type task"
    and "Repeating task' = (Repeating task \<and> \<not> arrived)"
    and "Executed task' = (Executed task \<or> \<not> Repeating task \<or> arrived)"
    and "Time task' = (if isArrivalCheck (Type task) \<and> \<not> arrived
                       then Add (Time task) (5 * Minute) else Time task)"
  unfolding task'_def arrived_def
  by (cases "Type task";
      auto simp: executeTask_def Let_def markExecuted_def isArrivalCheck_def reportsArrived_def
        journeyOf_def split: prod.splits)+

lemma executeTask_task_indep:
  assumes "cfg s = cfg s'"
  shows "fst (snd (executeTask w s task)) = fst (snd (executeTask w s' task))"
proof (rule Task.equality)
  show "Type (fst (snd (executeTask w s task))) = Type (fst (snd (executeTask w s' task)))"
    by (simp add: executeTask_task)
  show "Time (fst (snd (executeTask w s task))) = Time (fst (snd (executeTask w s' task)))"
    by (simp add: executeTask_task reportsArrived_cfg [OF assms])
  show "Executed (fst (snd (executeTask w s task))) = Executed (fst (snd (executeTask w s' task)))"
    by (simp add: executeTask_task reportsArrived_cfg [OF assms])
  show "Repeating (fst (snd (executeTask w s task))) = Repeating (fst (snd (executeTask w s' task)))"
    by (simp add: executeTask_task reportsArrived_cfg [OF assms])
  show "Task.more (fst (snd (executeTask w s task))) = Task.more (fst (snd (executeTask w s' task)))"
    by simp
qed

lemma nextTask_cfg: "cfg s = cfg s' \<Longrightarrow> nextTask w s n task = nextTask w s' n task"
  using executeTask_task_indep [of s s' w task] by (simp add: nextTask_def)

lemma tickLoop_Cons:
  "tickLoop w n i s (task # rest) =
     (if due n task
      then (let s1 = fst (executeTask (w i) s task);
                r = tickLoop w n (Suc i) s1 rest
            in (fst r, nextTask (w i) s n task # fst (snd r),
                \<lparr>position = i, taskType = Type task,
                  notifications = fst (snd (snd (executeTask (w i) s task))),
                  failure = snd (snd (snd (executeTask (w i) s task)))\<rparr> # snd (snd r)))
      else (let r = tickLoop w n (Suc i) s rest
            in (fst r, nextTask (w i) s n task # fst (snd r), snd (snd r))))"
proof -
  obtain s1 task1 ns e where ex: "executeTask (w i) s task = (s1, task1, ns, e)"
    by (cases "executeTask (w i) s task") auto
  obtain a b c where r1: "tickLoop w n (Suc i) s1 rest = (a, b, c)"
    by (cases "tickLoop w n (Suc i) s1 rest") auto
  obtain a' b' c' where r0: "tickLoop w n (Suc i) s rest = (a', b', c')"
    by (cases "tickLoop w n (Suc i) s rest") auto
  have simps: "tickLoop w n i s (task # rest) =
     (if Executed task \<and> \<not> Repeating task then (a', task # b', c')
      else if isWithinWindow (Time task) n (2 * Minute)
      then (a, task1 # b, \<lparr>position = i, taskType = Type task, notifications = ns, failure = e\<rparr> # c)
      else (a', task # b', c'))"
    by (simp add: ex r1 r0)
  show ?thesis
  proof (cases "Executed task \<and> \<not> Repeating task")
    case True
    then have "\<not> due n task" by (simp add: due_def)
    with True show ?thesis by (simp add: simps r0 nextTask_def del: tickLoop.simps)
  next
    case nd: False
    show ?thesis
    proof (cases "isWithinWindow (Time task) n (2 * Minute)")
      case True
      with nd have d: "due n task" by (simp add: due_def)
      from nd True d show ?thesis by (auto simp add: simps ex r1 nextTask_def simp del: tickLoop.simps)
    next
      case False
      then have d: "\<not> due n task" by (simp add: due_def)
      from nd False d show ?thesis by (auto simp add: simps r0 nextTask_def simp del: tickLoop.simps)
    qed
  qed
qed

declare tickLoop.simps(2) [simp del]

lemma tickLoop_frame:
  "cfg (fst (tickLoop w n i s ts)) = cfg s \<and> currentDay (fst (tickLoop w n i s ts)) = currentDay s
   \<and> tasks (fst (tickLoop w n i s ts)) = tasks s"
  by (induction ts arbitrary: i s) (simp_all add: tickLoop_Cons Let_def executeTask_frame)

lemma tickLoop_tasks:
  "fst (snd (tickLoop w n i s ts))
     = map (\<lambda>(j, t). nextTask (w j) s n t) (zip [i..<i + length ts] ts)"
proof (induction ts arbitrary: i s)
  case Nil
  show ?case by simp
next
  case (Cons task rest)
  have upt: "[i..<i + length (task # rest)] = i # [Suc i..<Suc i + length rest]"
    using upt_conv_Cons [of i "Suc (i + length rest)"] by (simp del: upt_Suc)
  have indep: "nextTask v (fst (executeTask (w i) s task)) n t = nextTask v s n t" for v t
    by (rule nextTask_cfg) (simp add: executeTask_frame)
  have tail: "fst (snd (tickLoop w n (Suc i) s' rest))
              = map (\<lambda>(j, t). nextTask (w j) s n t) (zip [Suc i..<Suc i + length rest] rest)"
    if "s' = s \<or> s' = fst (executeTask (w i) s task)" for s'
    using that Cons.IH [of "Suc i" s'] by (auto simp only: indep)
  have "fst (snd (tickLoop w n i s (task # rest)))
        = nextTask (w i) s n task
          # map (\<lambda>(j, t). nextTask (w j) s n t) (zip [Suc i..<Suc i + length rest] rest)"
  proof (cases "due n task")
    case True
    then have "fst (snd (tickLoop w n i s (task # rest)))
        = nextTask (w i) s n task
          # fst (snd (tickLoop w n (Suc i) (fst (executeTask (w i) s task)) rest))"
      by (simp add: tickLoop_Cons Let_def)
    then show ?thesis by (simp only: tail [OF disjI2 [OF refl]])
  next
    case False
    then have "fst (snd (tickLoop w n i s (task # rest)))
        = nextTask (w i) s n task # fst (snd (tickLoop w n (Suc i) s rest))"
      by (simp add: tickLoop_Cons Let_def)
    then show ?thesis by (simp only: tail [OF disjI1 [OF refl]])
  qed
  then show ?case by (simp only: upt zip_Cons_Cons list.map prod.case)
qed

lemma tickLoop_positions:
  "map position (snd (snd (tickLoop w n i s ts)))
     = map fst (filter (\<lambda>(j, t). due n t) (zip [i..<i + length ts] ts))"
proof (induction ts arbitrary: i s)
  case Nil
  show ?case by simp
next
  case (Cons task rest)
  have upt: "[i..<i + length (task # rest)] = i # [Suc i..<Suc i + length rest]"
    using upt_conv_Cons [of i "Suc (i + length rest)"] by (simp del: upt_Suc)
  have tail: "map position (snd (snd (tickLoop w n (Suc i) s' rest)))
              = map fst (filter (\<lambda>(j, t). due n t) (zip [Suc i..<Suc i + length rest] rest))" for s'
    by (rule Cons.IH)
  have "map position (snd (snd (tickLoop w n i s (task # rest))))
        = (if due n task then [i] else [])
          @ map fst (filter (\<lambda>(j, t). due n t) (zip [Suc i..<Suc i + length rest] rest))"
  proof (cases "due n task")
    case True
    then have "map position (snd (snd (tickLoop w n i s (task # rest))))
        = i # map position (snd (snd (tickLoop w n (Suc i) (fst (executeTask (w i) s task)) rest)))"
      by (simp add: tickLoop_Cons Let_def)
    with True show ?thesis by (simp only: tail if_True append_Cons append_Nil)
  next
    case False
    then have "map position (snd (snd (tickLoop w n i s (task # rest))))
        = map position (snd (snd (tickLoop w n (Suc i) s rest)))"
      by (simp add: tickLoop_Cons Let_def)
    with False show ?thesis by (simp only: tail if_False append_Nil)
  qed
  then show ?case
    unfolding upt by (cases "due n task") simp_all
qed

lemma tickLoop_length: "length (fst (snd (tickLoop w n i s ts))) = length ts"
  by (simp add: tickLoop_tasks)

lemma tickLoop_nth:
  "j < length ts \<Longrightarrow> fst (snd (tickLoop w n i s ts)) ! j = nextTask (w (i + j)) s n (ts ! j)"
  by (simp add: tickLoop_tasks)

lemma zip_upt_set: "set (zip [i..<i + length ts] ts) = {(i + k, ts ! k) | k. k < length ts}"
  apply (auto simp: set_zip)
  subgoal for k by (rule exI [of _ k]) simp
  done

lemma tickLoop_executed:
  assumes "j < length ts"
  shows "i + j \<in> set (map position (snd (snd (tickLoop w n i s ts)))) \<longleftrightarrow> due n (ts ! j)"
proof
  assume "i + j \<in> set (map position (snd (snd (tickLoop w n i s ts))))"
  then obtain p where p: "p \<in> set (zip [i..<i + length ts] ts)" "due n (snd p)" "fst p = i + j"
    unfolding tickLoop_positions by (auto simp: case_prod_beta)
  from p(1) obtain k where "p = (i + k, ts ! k)" "k < length ts"
    unfolding zip_upt_set by blast
  with p(2,3) show "due n (ts ! j)" by simp
next
  assume d: "due n (ts ! j)"
  have "(i + j, ts ! j) \<in> set (zip [i..<i + length ts] ts)"
    unfolding zip_upt_set using assms by blast
  with d have "(i + j, ts ! j) \<in> set (filter (\<lambda>(j, t). due n t) (zip [i..<i + length ts] ts))"
    by simp
  then have "fst (i + j, ts ! j) \<in> fst ` set (filter (\<lambda>(j, t). due n t) (zip [i..<i + length ts] ts))"
    by (rule imageI)
  then show "i + j \<in> set (map position (snd (snd (tickLoop w n i s ts))))"
    unfolding tickLoop_positions by simp
qed

lemma tick_parts:
  "tasks (fst (tick k s)) = fst (snd (tickLoop (world k) (now k) 0 (rollover k s) (tasks (rollover k s))))"
  "snd (tick k s) = snd (snd (tickLoop (world k) (now k) 0 (rollover k s) (tasks (rollover k s))))"
  "cfg (fst (tick k s)) = cfg (rollover k s)"
  "currentDay (fst (tick k s)) = currentDay (rollover k s)"
  "trainMonitor (fst (tick k s))
     = trainMonitor (fst (tickLoop (world k) (now k) 0 (rollover k s) (tasks (rollover k s))))"
  "tubeMonitor (fst (tick k s))
     = tubeMonitor (fst (tickLoop (world k) (now k) 0 (rollover k s) (tasks (rollover k s))))"
proof -
  obtain a b c where r: "tickLoop (world k) (now k) 0 (rollover k s) (tasks (rollover k s)) = (a, b, c)"
    by (cases "tickLoop (world k) (now k) 0 (rollover k s) (tasks (rollover k s))") auto
  have f: "cfg a = cfg (rollover k s)" "currentDay a = currentDay (rollover k s)"
    using tickLoop_frame [of "world k" "now k" 0 "rollover k s" "tasks (rollover k s)"] r by simp_all
  show "tasks (fst (tick k s)) = fst (snd (tickLoop (world k) (now k) 0 (rollover k s) (tasks (rollover k s))))"
    and "snd (tick k s) = snd (snd (tickLoop (world k) (now k) 0 (rollover k s) (tasks (rollover k s))))"
    and "cfg (fst (tick k s)) = cfg (rollover k s)"
    and "currentDay (fst (tick k s)) = currentDay (rollover k s)"
    and "trainMonitor (fst (tick k s))
     = trainMonitor (fst (tickLoop (world k) (now k) 0 (rollover k s) (tasks (rollover k s))))"
    and "tubeMonitor (fst (tick k s))
     = tubeMonitor (fst (tickLoop (world k) (now k) 0 (rollover k s) (tasks (rollover k s))))"
    using f by (simp_all add: tick_def Let_def r)
qed

lemma rollover_same: "nowDay k = currentDay s \<Longrightarrow> rollover k s = s"
  by (simp add: rollover_def)

lemma tick_length: "length (tasks (fst (tick k s))) = length (tasks (rollover k s))"
  by (simp add: tick_parts(1) tickLoop_length)

lemma tick_nth:
  "i < length (tasks (rollover k s)) \<Longrightarrow>
   tasks (fst (tick k s)) ! i = nextTask (world k i) (rollover k s) (now k) (tasks (rollover k s) ! i)"
  using tickLoop_nth [of i "tasks (rollover k s)" "world k" "now k" 0 "rollover k s"]
  by (simp add: tick_parts(1))

lemma tick_executed:
  "i < length (tasks (rollover k s)) \<Longrightarrow>
   i \<in> executedAt (snd (tick k s)) \<longleftrightarrow> due (now k) (tasks (rollover k s) ! i)"
  using tickLoop_executed [of i "tasks (rollover k s)" 0 "world k" "now k" "rollover k s"]
  by (simp add: tick_parts(2) executedAt_def)

lemma ticks_Cons:
  "fst (ticks s (k # ks)) = fst (ticks (fst (tick k s)) ks)"
  "snd (ticks s (k # ks)) = snd (tick k s) # snd (ticks (fst (tick k s)) ks)"
  by (simp_all add: Let_def split: prod.splits)

declare ticks.simps(2) [simp del]

text \<open>A task that no tick of a same-day run finds due is never executed and never changed.\<close>

lemma ticks_untouched:
  assumes "\<forall>k\<in>set ks. nowDay k = currentDay s" and "i < length (tasks s)"
    and "\<forall>k\<in>set ks. \<not> due (now k) (tasks s ! i)"
  shows "(\<forall>log\<in>set (snd (ticks s ks)). i \<notin> executedAt log)
         \<and> tasks (fst (ticks s ks)) ! i = tasks s ! i
         \<and> length (tasks (fst (ticks s ks))) = length (tasks s)
         \<and> currentDay (fst (ticks s ks)) = currentDay s"
  using assms
proof (induction ks arbitrary: s)
  case Nil
  show ?case by simp
next
  case (Cons k ks)
  from Cons.prems(1) have same: "rollover k s = s" by (simp add: rollover_same)
  from Cons.prems(3) have nd: "\<not> due (now k) (tasks s ! i)" by simp
  let ?s1 = "fst (tick k s)"
  have len: "length (tasks ?s1) = length (tasks s)" using tick_length [of k s] by (simp add: same)
  have day: "currentDay ?s1 = currentDay s" by (simp add: tick_parts(4) same)
  have keep: "tasks ?s1 ! i = tasks s ! i"
    using tick_nth [of i k s] Cons.prems(2) nd by (simp add: same nextTask_def)
  have notex: "i \<notin> executedAt (snd (tick k s))"
    using tick_executed [of i k s] Cons.prems(2) nd by (simp add: same)
  have IH: "(\<forall>log\<in>set (snd (ticks ?s1 ks)). i \<notin> executedAt log)
         \<and> tasks (fst (ticks ?s1 ks)) ! i = tasks ?s1 ! i
         \<and> length (tasks (fst (ticks ?s1 ks))) = length (tasks ?s1)
         \<and> currentDay (fst (ticks ?s1 ks)) = currentDay ?s1"
  proof (rule Cons.IH)
    show "\<forall>k\<in>set ks. nowDay k = currentDay ?s1" using Cons.prems(1) day by simp
    show "i < length (tasks ?s1)" using Cons.prems(2) len by simp
    show "\<forall>k\<in>set ks. \<not> due (now k) (tasks ?s1 ! i)" using Cons.prems(3) keep by simp
  qed
  with notex keep len day show ?case by (simp add: ticks_Cons)
qed

text \<open>
  Claim C4. In a tick at time \<open>now\<close>, the task at position \<open>i\<close> of the task list (the list
  after the day-change test of that tick) is executed exactly when it is not yet executed or
  is recurring and \<open>0 \<le> now - Time < 2 minutes\<close>. Over any run of ticks of the same day, a
  task whose window holds none of the tick times is executed by none of them and stays as it
  was: nothing catches up on a missed window. This holds for every task, so in particular for
  every non-recurring one.
\<close>

theorem task_executes_iff_in_window:
  "(i < length (tasks (rollover k s)) \<longrightarrow>
      (i \<in> executedAt (snd (tick k s))
         \<longleftrightarrow> (\<not> Executed (tasks (rollover k s) ! i) \<or> Repeating (tasks (rollover k s) ! i))
              \<and> 0 \<le> now k - Time (tasks (rollover k s) ! i)
              \<and> now k - Time (tasks (rollover k s) ! i) < 2 * Minute))
   \<and> ((\<forall>k\<in>set ks. nowDay k = currentDay s) \<and> i < length (tasks s)
        \<and> (\<forall>k\<in>set ks. \<not> (0 \<le> now k - Time (tasks s ! i) \<and> now k - Time (tasks s ! i) < 2 * Minute))
      \<longrightarrow> (\<forall>log\<in>set (snd (ticks s ks)). i \<notin> executedAt log)
          \<and> tasks (fst (ticks s ks)) ! i = tasks s ! i)"
proof (intro conjI impI)
  assume "i < length (tasks (rollover k s))"
  then show "i \<in> executedAt (snd (tick k s))
         \<longleftrightarrow> (\<not> Executed (tasks (rollover k s) ! i) \<or> Repeating (tasks (rollover k s) ! i))
              \<and> 0 \<le> now k - Time (tasks (rollover k s) ! i)
              \<and> now k - Time (tasks (rollover k s) ! i) < 2 * Minute"
    by (simp add: tick_executed due_iff inWindow_def)
next
  assume a: "(\<forall>k\<in>set ks. nowDay k = currentDay s) \<and> i < length (tasks s)
        \<and> (\<forall>k\<in>set ks. \<not> (0 \<le> now k - Time (tasks s ! i) \<and> now k - Time (tasks s ! i) < 2 * Minute))"
  then have nd: "\<forall>k\<in>set ks. \<not> due (now k) (tasks s ! i)"
    by (simp add: due_iff inWindow_def)
  from a have same: "\<forall>k\<in>set ks. nowDay k = currentDay s" and len: "i < length (tasks s)"
    by blast+
  from ticks_untouched [OF same len nd]
  show "\<forall>log\<in>set (snd (ticks s ks)). i \<notin> executedAt log"
    and "tasks (fst (ticks s ks)) ! i = tasks s ! i"
    by blast+
qed

theorem task_executes_iff_in_window_witness:
  "0 \<in> executedAt (snd (tick (tickAt (421 * Minute + 30000000000))
                        (oneTaskScheduler exampleConfig (mkTask TaskMorningDelayCheck (420 * Minute)))))
   \<and> tasks (fst (ticks (oneTaskScheduler exampleConfig (mkTask TaskMorningDelayCheck (420 * Minute)))
                   [tickAt (423 * Minute), tickAt (424 * Minute)])) ! 0
       = mkTask TaskMorningDelayCheck (420 * Minute)
   \<and> 0 \<notin> executedAt (hd (snd (ticks (oneTaskScheduler exampleConfig (mkTask TaskMorningDelayCheck (420 * Minute)))
                   [tickAt (423 * Minute), tickAt (424 * Minute)])))"
proof -
  let ?s = "oneTaskScheduler exampleConfig (mkTask TaskMorningDelayCheck (420 * Minute))"
  let ?k = "tickAt (421 * Minute + 30000000000)"
  let ?ks = "[tickAt (423 * Minute), tickAt (424 * Minute)]"
  have r: "rollover ?k ?s = ?s"
    by (simp add: rollover_def tickAt_def oneTaskScheduler_def)
  have t: "tasks ?s = [mkTask TaskMorningDelayCheck (420 * Minute)]"
    by (simp add: oneTaskScheduler_def)
  have day: "\<forall>k\<in>set ?ks. nowDay k = currentDay ?s"
    by (simp add: tickAt_def oneTaskScheduler_def)
  have f: "Time (tasks ?s ! 0) = 420 * Minute" "\<not> Executed (tasks ?s ! 0)" "length (tasks ?s) = 1"
    by (simp_all add: oneTaskScheduler_def mkTask_def)
  have out: "\<forall>k\<in>set ?ks. \<not> (0 \<le> now k - Time (tasks ?s ! 0) \<and> now k - Time (tasks ?s ! 0) < 2 * Minute)"
    unfolding f by (simp add: tickAt_def Minute_def)
  have n: "now ?k = 421 * Minute + 30000000000" by (simp add: tickAt_def)
  have first: "0 \<in> executedAt (snd (tick ?k ?s))"
    using task_executes_iff_in_window [of 0 ?k ?s "[]"] f(2)
    unfolding r f(1) f(3) n by (simp add: Minute_def)
  have "snd (ticks ?s ?ks) \<noteq> []" by (simp add: ticks_Cons)
  then have hd: "hd (snd (ticks ?s ?ks)) \<in> set (snd (ticks ?s ?ks))" by simp
  from task_executes_iff_in_window [of 0 ?k ?s ?ks] day out f(3)
  have "(\<forall>log\<in>set (snd (ticks ?s ?ks)). 0 \<notin> executedAt log)
        \<and> tasks (fst (ticks ?s ?ks)) ! 0 = tasks ?s ! 0"
    by simp
  with hd first t show ?thesis by simp
qed

lemma terminal_not_due: "Executed t \<Longrightarrow> \<not> Repeating t \<Longrightarrow> \<not> due n t"
  by (simp add: due_def)

declare lineCheckTasks.simps [simp del]

lemma lineCheckTasks_type: "t \<in> set (lineCheckTasks a b) \<Longrightarrow> Type t = TaskNorthernLineCheck"
proof (induction a b rule: lineCheckTasks.induct)
  case (1 a b)
  show ?case
  proof (cases "a > b")
    case True
    with "1.prems" show ?thesis by (subst (asm) lineCheckTasks.simps) simp
  next
    case False
    with "1.prems" have "t = mkTask TaskNorthernLineCheck a \<or> t \<in> set (lineCheckTasks (Add a (5 * Minute)) b)"
      by (subst (asm) lineCheckTasks.simps) simp
    with "1.IH" False show ?thesis by (auto simp: mkTask_def)
  qed
qed

lemma journeyTasks_arrival:
  assumes "t \<in> set (journeyTasks dc su ac dep)" and "isArrivalCheck (Type t)"
    and "\<not> isArrivalCheck dc" and "\<not> isArrivalCheck su"
  shows "Repeating t \<and> \<not> Executed t"
  using assms by (auto simp: journeyTasks_def mkTask_def)

lemma setupDailyTasks_tasks:
  "\<exists>mdep edep (arr :: error + time).
     set (tasks (setupDailyTasks d s))
       \<subseteq> set (case mdep of None \<Rightarrow> []
                | Some dep \<Rightarrow>
                    journeyTasks TaskMorningDelayCheck TaskMorningStatusUpdate TaskMorningArrivalCheck dep
                    @ lineCheckTasks (Add dep (- 60 * Minute)) dep
                    @ (case arr of Inl e \<Rightarrow> []
                       | Inr arrivalTime \<Rightarrow>
                           [mkTask TaskNorthernLineSummary (Add arrivalTime (- 15 * Minute))]))
         \<union> set (case edep of None \<Rightarrow> []
                  | Some dep \<Rightarrow>
                      journeyTasks TaskEveningDelayCheck TaskEveningStatusUpdate TaskEveningArrivalCheck dep)"
proof (cases "\<not> IsActiveDay (ToLower d) (MorningTrain (cfg s)) (weekday d)
              \<and> \<not> IsActiveDay (ToLower d) (EveningTrain (cfg s)) (weekday d)")
  case True
  then have "tasks (setupDailyTasks d s) = []" by (simp add: setupDailyTasks_def Let_def)
  then show ?thesis by simp
next
  case False
  let ?mdep = "if IsActiveDay (ToLower d) (MorningTrain (cfg s)) (weekday d)
               then (case DepartureTime (localDate d) (MorningTrain (cfg s)) of
                       Inl e \<Rightarrow> None | Inr t \<Rightarrow> Some t)
               else None"
  let ?edep = "if IsActiveDay (ToLower d) (EveningTrain (cfg s)) (weekday d)
               then (case DepartureTime (localDate d) (EveningTrain (cfg s)) of
                       Inl e \<Rightarrow> None | Inr t \<Rightarrow> Some t)
               else None"
  let ?arr = "GetExpectedArrivalTime (lookup d) (localDate d)
                (From (MorningTrain (cfg s))) (To (MorningTrain (cfg s)))
                (Departure (MorningTrain (cfg s)))"
  from False have "tasks (setupDailyTasks d s)
     = (case ?mdep of None \<Rightarrow> []
        | Some dep \<Rightarrow>
            journeyTasks TaskMorningDelayCheck TaskMorningStatusUpdate TaskMorningArrivalCheck dep
            @ lineCheckTasks (Add dep (- 60 * Minute)) dep
            @ (case ?arr of Inl e \<Rightarrow> []
               | Inr arrivalTime \<Rightarrow>
                   [mkTask TaskNorthernLineSummary (Add arrivalTime (- 15 * Minute))]))
       @ (case ?edep of None \<Rightarrow> []
          | Some dep \<Rightarrow>
              journeyTasks TaskEveningDelayCheck TaskEveningStatusUpdate TaskEveningArrivalCheck dep)"
    by (cases "IsActiveDay (ToLower d) (MorningTrain (cfg s)) (weekday d)";
        cases "IsActiveDay (ToLower d) (EveningTrain (cfg s)) (weekday d)")
       (simp_all add: setupDailyTasks_def Let_def cong: option.case_cong sum.case_cong)
  then have sub: "set (tasks (setupDailyTasks d s))
       \<subseteq> set (case ?mdep of None \<Rightarrow> []
                | Some dep \<Rightarrow>
                    journeyTasks TaskMorningDelayCheck TaskMorningStatusUpdate TaskMorningArrivalCheck dep
                    @ lineCheckTasks (Add dep (- 60 * Minute)) dep
                    @ (case ?arr of Inl e \<Rightarrow> []
                       | Inr arrivalTime \<Rightarrow>
                           [mkTask TaskNorthernLineSummary (Add arrivalTime (- 15 * Minute))]))
         \<union> set (case ?edep of None \<Rightarrow> []
                  | Some dep \<Rightarrow>
                      journeyTasks TaskEveningDelayCheck TaskEveningStatusUpdate TaskEveningArrivalCheck dep)"
    by (simp only: set_append subset_refl)
  show ?thesis
    apply (rule exI [of _ ?mdep])
    apply (rule exI [of _ ?edep])
    apply (rule exI [of _ ?arr])
    apply (rule sub)
    done
qed


lemma setupDailyTasks_arrival:
  assumes "t \<in> set (tasks (setupDailyTasks d s))" and "isArrivalCheck (Type t)"
  shows "Repeating t \<and> \<not> Executed t"
proof -
  have m: "Repeating t \<and> \<not> Executed t"
    if "t \<in> set (journeyTasks TaskMorningDelayCheck TaskMorningStatusUpdate TaskMorningArrivalCheck dep)" for dep
    using that assms(2) by (rule journeyTasks_arrival) (simp_all add: isArrivalCheck_def)
  have e: "Repeating t \<and> \<not> Executed t"
    if "t \<in> set (journeyTasks TaskEveningDelayCheck TaskEveningStatusUpdate TaskEveningArrivalCheck dep)" for dep
    using that assms(2) by (rule journeyTasks_arrival) (simp_all add: isArrivalCheck_def)
  have l: "False" if "t \<in> set (lineCheckTasks a b)" for a b
    using lineCheckTasks_type [OF that] assms(2) by (simp add: isArrivalCheck_def)
  have sm: "False" if "t = mkTask TaskNorthernLineSummary a" for a
    using that assms(2) by (simp add: isArrivalCheck_def mkTask_def)
  from setupDailyTasks_tasks [of d s] obtain mdep edep and arr :: "error + time" where
    "set (tasks (setupDailyTasks d s))
       \<subseteq> set (case mdep of None \<Rightarrow> []
                | Some dep \<Rightarrow>
                    journeyTasks TaskMorningDelayCheck TaskMorningStatusUpdate TaskMorningArrivalCheck dep
                    @ lineCheckTasks (Add dep (- 60 * Minute)) dep
                    @ (case arr of Inl e \<Rightarrow> []
                       | Inr arrivalTime \<Rightarrow>
                           [mkTask TaskNorthernLineSummary (Add arrivalTime (- 15 * Minute))]))
         \<union> set (case edep of None \<Rightarrow> []
                  | Some dep \<Rightarrow>
                      journeyTasks TaskEveningDelayCheck TaskEveningStatusUpdate TaskEveningArrivalCheck dep)"
    by blast
  with assms(1) have "t \<in> set (case mdep of None \<Rightarrow> []
                | Some dep \<Rightarrow>
                    journeyTasks TaskMorningDelayCheck TaskMorningStatusUpdate TaskMorningArrivalCheck dep
                    @ lineCheckTasks (Add dep (- 60 * Minute)) dep
                    @ (case arr of Inl e \<Rightarrow> []
                       | Inr arrivalTime \<Rightarrow>
                           [mkTask TaskNorthernLineSummary (Add arrivalTime (- 15 * Minute))]))
         \<union> set (case edep of None \<Rightarrow> []
                  | Some dep \<Rightarrow>
                      journeyTasks TaskEveningDelayCheck TaskEveningStatusUpdate TaskEveningArrivalCheck dep)"
    by blast
  then show ?thesis
    by (cases mdep; cases edep; cases arr) (auto dest: m e l sm)
qed

lemma tick_executed_task:
  assumes "i < length (tasks (rollover k s))" and "i \<in> executedAt (snd (tick k s))"
  shows "tasks (fst (tick k s)) ! i
           = fst (snd (executeTask (world k i) (rollover k s) (tasks (rollover k s) ! i)))"
  using assms tick_executed [of i k s] tick_nth [of i k s] by (simp add: nextTask_def)

lemma terminal_never_again:
  assumes "\<forall>k\<in>set ks. nowDay k = currentDay s" and "i < length (tasks s)"
    and "Executed (tasks s ! i)" and "\<not> Repeating (tasks s ! i)"
  shows "\<forall>log\<in>set (snd (ticks s ks)). i \<notin> executedAt log"
proof -
  have "\<forall>k\<in>set ks. \<not> due (now k) (tasks s ! i)"
    using assms(3,4) by (simp add: terminal_not_due)
  from ticks_untouched [OF assms(1,2) this] show ?thesis by blast
qed

text \<open>
  Claim C5. When a tick executes an arrival-check task and the check reports arrived, the
  task is afterwards non-recurring and executed, and no later tick of that day executes it.
  When the check reports not arrived, the scheduled time of the task is afterwards exactly
  5 minutes later and its recurring flag is as before; a recurring task also keeps its
  executed flag, so it stays eligible for the new window. Every arrival-check task that
  \<open>setupDailyTasks\<close> builds is recurring and not executed.
\<close>

theorem arrival_check_terminal_or_advanced:
  "(i < length (tasks (rollover k s)) \<and> isArrivalCheck (Type (tasks (rollover k s) ! i))
      \<and> i \<in> executedAt (snd (tick k s))
      \<and> reportsArrived (world k i) (rollover k s) (Type (tasks (rollover k s) ! i))
      \<and> (\<forall>k'\<in>set ks. nowDay k' = currentDay (fst (tick k s)))
    \<longrightarrow> \<not> Repeating (tasks (fst (tick k s)) ! i) \<and> Executed (tasks (fst (tick k s)) ! i)
        \<and> (\<forall>log\<in>set (snd (ticks (fst (tick k s)) ks)). i \<notin> executedAt log))
   \<and> (i < length (tasks (rollover k s)) \<and> isArrivalCheck (Type (tasks (rollover k s) ! i))
      \<and> i \<in> executedAt (snd (tick k s))
      \<and> \<not> reportsArrived (world k i) (rollover k s) (Type (tasks (rollover k s) ! i))
    \<longrightarrow> Time (tasks (fst (tick k s)) ! i) = Time (tasks (rollover k s) ! i) + 5 * Minute
        \<and> Repeating (tasks (fst (tick k s)) ! i) = Repeating (tasks (rollover k s) ! i)
        \<and> (Repeating (tasks (rollover k s) ! i) \<longrightarrow>
             Executed (tasks (fst (tick k s)) ! i) = Executed (tasks (rollover k s) ! i)))
   \<and> (\<forall>t\<in>set (tasks (setupDailyTasks d s)). isArrivalCheck (Type t) \<longrightarrow> Repeating t \<and> \<not> Executed t)"
proof (intro conjI impI ballI)
  assume a: "i < length (tasks (rollover k s)) \<and> isArrivalCheck (Type (tasks (rollover k s) ! i))
      \<and> i \<in> executedAt (snd (tick k s))
      \<and> reportsArrived (world k i) (rollover k s) (Type (tasks (rollover k s) ! i))
      \<and> (\<forall>k'\<in>set ks. nowDay k' = currentDay (fst (tick k s)))"
  then have t': "tasks (fst (tick k s)) ! i
           = fst (snd (executeTask (world k i) (rollover k s) (tasks (rollover k s) ! i)))"
    by (simp add: tick_executed_task)
  from a show nr: "\<not> Repeating (tasks (fst (tick k s)) ! i)"
    unfolding t' by (simp add: executeTask_task)
  from a show ex: "Executed (tasks (fst (tick k s)) ! i)"
    unfolding t' by (simp add: executeTask_task)
  from a have len: "i < length (tasks (fst (tick k s)))" by (simp add: tick_length)
  from a have day: "\<forall>k'\<in>set ks. nowDay k' = currentDay (fst (tick k s))" by blast
  fix log assume "log \<in> set (snd (ticks (fst (tick k s)) ks))"
  with terminal_never_again [OF day len ex nr] show "i \<notin> executedAt log" by blast
next
  assume a: "i < length (tasks (rollover k s)) \<and> isArrivalCheck (Type (tasks (rollover k s) ! i))
      \<and> i \<in> executedAt (snd (tick k s))
      \<and> \<not> reportsArrived (world k i) (rollover k s) (Type (tasks (rollover k s) ! i))"
  then have t': "tasks (fst (tick k s)) ! i
           = fst (snd (executeTask (world k i) (rollover k s) (tasks (rollover k s) ! i)))"
    by (simp add: tick_executed_task)
  from a show "Time (tasks (fst (tick k s)) ! i) = Time (tasks (rollover k s) ! i) + 5 * Minute"
    unfolding t' by (simp add: executeTask_task Add_def)
  from a show "Repeating (tasks (fst (tick k s)) ! i) = Repeating (tasks (rollover k s) ! i)"
    unfolding t' by (simp add: executeTask_task)
  assume "Repeating (tasks (rollover k s) ! i)"
  with a show "Executed (tasks (fst (tick k s)) ! i) = Executed (tasks (rollover k s) ! i)"
    unfolding t' by (simp add: executeTask_task)
next
  fix t assume "t \<in> set (tasks (setupDailyTasks d s))" "isArrivalCheck (Type t)"
  then show "Repeating t" "\<not> Executed t" using setupDailyTasks_arrival by blast+
qed

theorem arrival_check_terminal_or_advanced_witness:
  "\<not> Repeating (tasks (fst (tick (arrivedTickAt (510 * Minute))
                               (oneTaskScheduler exampleConfig (arrivalTask (510 * Minute))))) ! 0)
   \<and> Executed (tasks (fst (tick (arrivedTickAt (510 * Minute))
                               (oneTaskScheduler exampleConfig (arrivalTask (510 * Minute))))) ! 0)
   \<and> 0 \<notin> executedAt (hd (snd (ticks (fst (tick (arrivedTickAt (510 * Minute))
                               (oneTaskScheduler exampleConfig (arrivalTask (510 * Minute)))))
                           [arrivedTickAt (511 * Minute)])))
   \<and> Time (tasks (fst (tick (tickAt (510 * Minute))
                           (oneTaskScheduler exampleConfig (arrivalTask (510 * Minute))))) ! 0)
       = 515 * Minute"
proof -
  let ?s = "oneTaskScheduler exampleConfig (arrivalTask (510 * Minute))"
  let ?k = "arrivedTickAt (510 * Minute)"
  let ?q = "tickAt (510 * Minute)"
  let ?ks = "[arrivedTickAt (511 * Minute)]"
  have r: "rollover ?k ?s = ?s" "rollover ?q ?s = ?s"
    by (simp_all add: rollover_def tickAt_def arrivedTickAt_def oneTaskScheduler_def)
  have f: "length (tasks ?s) = 1" "Type (tasks ?s ! 0) = TaskMorningArrivalCheck"
    "Time (tasks ?s ! 0) = 510 * Minute" "\<not> Executed (tasks ?s ! 0)" "Repeating (tasks ?s ! 0)"
    by (simp_all add: oneTaskScheduler_def arrivalTask_def mkTask_def)
  have n: "now ?k = 510 * Minute" "now ?q = 510 * Minute"
    "world ?k 0 = arrivedWorld" "world ?q 0 = failingWorld"
    by (simp_all add: tickAt_def arrivedTickAt_def)
  have c: "cfg ?s = exampleConfig" "trainMonitor ?s = NewTrainMonitor"
    by (simp_all add: oneTaskScheduler_def NewScheduler_def)
  have M: "0 < Minute" by (simp add: Minute_def)
  have d: "due (510 * Minute) (tasks ?s ! 0)"
    using f M by (simp add: due_iff inWindow_def)
  have e: "0 \<in> executedAt (snd (tick ?k ?s))" "0 \<in> executedAt (snd (tick ?q ?s))"
    using tick_executed [of 0 ?k ?s] tick_executed [of 0 ?q ?s] d
    unfolding r n by (simp_all add: f)
  have arr: "reportsArrived arrivedWorld ?s TaskMorningArrivalCheck"
    unfolding reportsArrived_def c by code_simp
  have narr: "\<not> reportsArrived failingWorld ?s TaskMorningArrivalCheck"
    unfolding reportsArrived_def c by code_simp
  have day: "\<forall>k'\<in>set ?ks. nowDay k' = currentDay (fst (tick ?k ?s))"
    unfolding tick_parts(4) r by (simp add: arrivedTickAt_def oneTaskScheduler_def)
  have ia: "isArrivalCheck TaskMorningArrivalCheck" by (simp add: isArrivalCheck_def)
  have "snd (ticks (fst (tick ?k ?s)) ?ks) \<noteq> []" by (simp add: ticks_Cons)
  then have hd: "hd (snd (ticks (fst (tick ?k ?s)) ?ks)) \<in> set (snd (ticks (fst (tick ?k ?s)) ?ks))"
    by simp
  note T = arrival_check_terminal_or_advanced [of 0 ?k ?s ?ks exampleDaily]
  note T0 = arrival_check_terminal_or_advanced [of 0 ?q ?s "[]" exampleDaily]
  from T e(1) arr day ia
  have one: "\<not> Repeating (tasks (fst (tick ?k ?s)) ! 0) \<and> Executed (tasks (fst (tick ?k ?s)) ! 0)
        \<and> (\<forall>log\<in>set (snd (ticks (fst (tick ?k ?s)) ?ks)). 0 \<notin> executedAt log)"
    unfolding r n f by simp
  from T0 e(2) narr ia
  have two: "Time (tasks (fst (tick ?q ?s)) ! 0) = 510 * Minute + 5 * Minute"
    unfolding r n f by simp
  from one two hd show ?thesis by simp
qed


















lemma setupDailyTasks_monitors:
  "trainMonitor (setupDailyTasks d s) = trainMonitor s"
  "tubeMonitor (setupDailyTasks d s) = tubeMonitor s"
  "currentDay (setupDailyTasks d s) = today d"
  "cfg (setupDailyTasks d s) = cfg s"
  by (simp_all add: setupDailyTasks_def Let_def)

lemma Reset_is_New:
  "TrainMonitor_ResetNotificationState (m :: TrainMonitor) = NewTrainMonitor"
  "TubeMonitor_ResetNotificationState (tm :: TubeMonitor) = NewTubeMonitor"
  by (simp_all add: TrainMonitor_ResetNotificationState_def NewTrainMonitor_def
      TubeMonitor_ResetNotificationState_def NewTubeMonitor_def)

lemma rollover_monitors:
  "nowDay k \<noteq> currentDay s \<Longrightarrow>
   trainMonitor (rollover k s) = NewTrainMonitor \<and> tubeMonitor (rollover k s) = NewTubeMonitor
   \<and> currentDay (rollover k s) = today (rebuild k)"
  by (simp add: rollover_def setupDailyTasks_monitors Reset_is_New)

lemma gatedBuckets_positive: "\<forall>b\<in>set (gatedBuckets u NewTrainMonitor obs). 0 < b"
  using gatedBuckets_run [of u NewTrainMonitor obs]
  by (simp add: NewTrainMonitor_def readInt_def)

text \<open>
  Claim C3. \<open>ResetNotificationState\<close> of the journey monitor and of the line monitor give
  the states of newly constructed monitors, so after the reset both behave as new monitors.
  A tick whose day differs from the stored day makes both resets before the task loop runs,
  which then works on new monitors; a tick of the stored day resets nothing. After the
  reset every delay with a positive bucket notifies at that bucket and becomes the mark,
  whatever was notified before; every bucket notified from a new monitor is positive, so a
  bucket notified yesterday notifies again today. The line monitor is back at the empty
  stored pair, its state before the first observation.
\<close>

theorem rollover_resets_dedup_state:
  "TrainMonitor_ResetNotificationState (m :: TrainMonitor) = NewTrainMonitor
   \<and> TubeMonitor_ResetNotificationState (tm :: TubeMonitor) = NewTubeMonitor
   \<and> (nowDay k \<noteq> currentDay s \<longrightarrow>
        trainMonitor (rollover k s) = NewTrainMonitor \<and> tubeMonitor (rollover k s) = NewTubeMonitor)
   \<and> (nowDay k = currentDay s \<longrightarrow> rollover k s = s)
   \<and> (0 < delayBucket delayMins \<longrightarrow>
        sent (handleDelay app (TrainMonitor_ResetNotificationState m) svc frm dest delayMins)
          = [SendTrainDelay (ServiceUid svc) frm dest delayMins
               (RealtimeDeparture (LocationDetail svc))
               (if Platform (LocationDetail svc) = '''' then ''TBC'' else Platform (LocationDetail svc))]
        \<and> readInt (notifiedDelays (st (handleDelay app (TrainMonitor_ResetNotificationState m)
                                          svc frm dest delayMins))) (ServiceUid svc)
            = delayBucket delayMins)
   \<and> (\<forall>b\<in>set (gatedBuckets u NewTrainMonitor obs). 0 < b)
   \<and> lastStatus (TubeMonitor_ResetNotificationState tm) = ''''
   \<and> lastStatusReason (TubeMonitor_ResetNotificationState tm) = ''''"
proof -
  have new: "readInt (notifiedDelays NewTrainMonitor) x = 0" for x
    by (simp add: NewTrainMonitor_def readInt_def)
  have d: "0 < delayBucket delayMins \<longrightarrow>
        sent (handleDelay app (TrainMonitor_ResetNotificationState m) svc frm dest delayMins)
          = [SendTrainDelay (ServiceUid svc) frm dest delayMins
               (RealtimeDeparture (LocationDetail svc))
               (if Platform (LocationDetail svc) = '''' then ''TBC'' else Platform (LocationDetail svc))]
        \<and> readInt (notifiedDelays (st (handleDelay app (TrainMonitor_ResetNotificationState m)
                                          svc frm dest delayMins))) (ServiceUid svc)
            = delayBucket delayMins"
    by (simp add: Reset_is_New handleDelay_sent handleDelay_st new readInt_upd)
  have t: "lastStatus (TubeMonitor_ResetNotificationState tm) = ''''"
    "lastStatusReason (TubeMonitor_ResetNotificationState tm) = ''''"
    by (simp_all add: TubeMonitor_ResetNotificationState_def)
  from Reset_is_New(1) [of m] Reset_is_New(2) [of tm] rollover_monitors [of k s] rollover_same [of k s] d
    gatedBuckets_positive [of u obs] t
  show ?thesis by blast
qed

theorem rollover_resets_dedup_state_witness:
  "trainMonitor (rollover (nextDayTickAt (380 * Minute))
       ((oneTaskScheduler exampleConfig (mkTask TaskMorningDelayCheck (380 * Minute)))
          \<lparr>trainMonitor := fst (observeAll NewTrainMonitor [gatedObservation ''0735''])\<rparr>))
     = NewTrainMonitor
   \<and> sent (handleDelay accepting (fst (observeAll NewTrainMonitor [gatedObservation ''0735'']))
             (delayedService ''0735'') ''WIN'' ''WAT'' 15) = []
   \<and> sent (handleDelay accepting
             (TrainMonitor_ResetNotificationState (fst (observeAll NewTrainMonitor [gatedObservation ''0735''])))
             (delayedService ''0735'') ''WIN'' ''WAT'' 15)
       = [SendTrainDelay ''W12345'' ''WIN'' ''WAT'' 15 ''0735'' ''4'']"
proof -
  let ?m = "fst (observeAll NewTrainMonitor [gatedObservation ''0735''])"
  let ?s = "(oneTaskScheduler exampleConfig (mkTask TaskMorningDelayCheck (380 * Minute)))
              \<lparr>trainMonitor := ?m\<rparr>"
  let ?k = "nextDayTickAt (380 * Minute)"
  note T = rollover_resets_dedup_state
             [where m = ?m and tm = NewTubeMonitor and k = ?k and s = ?s and delayMins = 15
                and app = accepting and svc = "delayedService ''0735''" and frm = "''WIN''"
                and dest = "''WAT''" and u = "''W12345''" and obs = "[]"]
  have day: "nowDay ?k \<noteq> currentDay ?s"
    by (simp add: nextDayTickAt_def oneTaskScheduler_def)
  have b: "0 < delayBucket 15" by (simp add: delayBucket_def signed_divide_int_def)
  have yesterday: "sent (handleDelay accepting ?m (delayedService ''0735'') ''WIN'' ''WAT'' 15) = []"
    by code_simp
  have svc: "ServiceUid (delayedService ''0735'') = ''W12345''"
    "RealtimeDeparture (LocationDetail (delayedService ''0735'')) = ''0735''"
    "Platform (LocationDetail (delayedService ''0735'')) = ''4''"
    by (simp_all add: delayedService_def)
  from T day have one: "trainMonitor (rollover ?k ?s) = NewTrainMonitor" by blast
  from T b have "sent (handleDelay accepting (TrainMonitor_ResetNotificationState ?m)
             (delayedService ''0735'') ''WIN'' ''WAT'' 15)
       = [SendTrainDelay (ServiceUid (delayedService ''0735'')) ''WIN'' ''WAT'' 15
               (RealtimeDeparture (LocationDetail (delayedService ''0735'')))
               (if Platform (LocationDetail (delayedService ''0735'')) = '''' then ''TBC''
                else Platform (LocationDetail (delayedService ''0735'')))]"
    by blast
  then have two: "sent (handleDelay accepting (TrainMonitor_ResetNotificationState ?m)
             (delayedService ''0735'') ''WIN'' ''WAT'' 15)
       = [SendTrainDelay ''W12345'' ''WIN'' ''WAT'' 15 ''0735'' ''4'']"
    by (simp add: svc)
  from one yesterday two show ?thesis by blast
qed

lemma processService_latch:
  "readBool (notifiedCancels (st (processService app m svc frm dest a))) u
     = (readBool (notifiedCancels m) u \<or> (isCancelled svc \<and> ServiceUid svc = u))"
  using observe_cancel_latch
    [of m "\<lparr>transport = app, observed = svc, origin = frm, destination = dest, always = a\<rparr>" u]
  by (simp add: observe_def observesCancelled_def)

lemma CheckDelay_latch:
  "readBool (notifiedCancels m) u \<Longrightarrow>
   readBool (notifiedCancels (st (CheckDelay client app m frm dest dep))) u"
  by (simp add: CheckDelay_def silent_def processService_latch split: sum.splits option.splits)

lemma CheckStatus_latch:
  "readBool (notifiedCancels m) u \<Longrightarrow>
   readBool (notifiedCancels (st (TrainMonitor_CheckStatus client app m frm dest dep))) u"
  by (simp add: TrainMonitor_CheckStatus_def silent_def processService_latch
      split: sum.splits option.splits)

lemma executeTask_latch:
  assumes "readBool (notifiedCancels (trainMonitor s)) u"
  shows "readBool (notifiedCancels (trainMonitor (fst (executeTask w s task)))) u"
  using assms
  by (cases "Type task")
     (simp_all add: executeTask_def Let_def CheckDelay_latch CheckStatus_latch CheckArrival_st
        split: prod.splits,
      (metis CheckArrival_st snd_conv)+)

lemma tickLoop_latch:
  "readBool (notifiedCancels (trainMonitor s)) u \<Longrightarrow>
   readBool (notifiedCancels (trainMonitor (fst (tickLoop w n i s ts)))) u"
proof (induction ts arbitrary: i s)
  case Nil
  then show ?case by simp
next
  case (Cons task rest)
  show ?case
  proof (cases "due n task")
    case True
    have "readBool (notifiedCancels (trainMonitor (fst (executeTask (w i) s task)))) u"
      using Cons.prems by (rule executeTask_latch)
    then have "readBool (notifiedCancels (trainMonitor
                 (fst (tickLoop w n (Suc i) (fst (executeTask (w i) s task)) rest)))) u"
      by (rule Cons.IH)
    with True show ?thesis by (simp add: tickLoop_Cons Let_def)
  next
    case False
    have "readBool (notifiedCancels (trainMonitor (fst (tickLoop w n (Suc i) s rest)))) u"
      using Cons.prems by (rule Cons.IH)
    with False show ?thesis by (simp add: tickLoop_Cons Let_def)
  qed
qed

lemma tick_latch:
  assumes "nowDay k = currentDay s" and "readBool (notifiedCancels (trainMonitor s)) u"
  shows "readBool (notifiedCancels (trainMonitor (fst (tick k s)))) u"
  using tickLoop_latch [OF assms(2), of "world k" "now k" 0 "tasks s"] assms(1)
  by (simp add: tick_parts(5) rollover_same)

lemma ticks_latch:
  assumes "\<forall>k\<in>set ks. nowDay k = currentDay s" and "readBool (notifiedCancels (trainMonitor s)) u"
  shows "readBool (notifiedCancels (trainMonitor (fst (ticks s ks)))) u"
  using assms
proof (induction ks arbitrary: s)
  case Nil
  then show ?case by simp
next
  case (Cons k ks)
  from Cons.prems(1) have same: "nowDay k = currentDay s" by simp
  have day: "currentDay (fst (tick k s)) = currentDay s"
    by (simp add: tick_parts(4) rollover_same [OF same])
  have "readBool (notifiedCancels (trainMonitor (fst (ticks (fst (tick k s)) ks)))) u"
  proof (rule Cons.IH)
    show "\<forall>k'\<in>set ks. nowDay k' = currentDay (fst (tick k s))"
      unfolding day using Cons.prems(1) by simp
    show "readBool (notifiedCancels (trainMonitor (fst (tick k s)))) u"
      using same Cons.prems(2) by (rule tick_latch)
  qed
  then show ?case by (simp add: ticks_Cons)
qed

text \<open>
  Claim C2. A cancelled observation of a service whose latch is not set sends one
  cancellation alert, of high priority, and sets the latch; with the latch set,
  \<open>handleCancellation\<close> sends nothing, returns no error and leaves the memory as it is.
  No observation un-sets a latch and no tick of the same day does: only the reset at the day
  rollover empties the memory. From a new monitor, in any run of observations of any
  services in any modes, observation \<open>i\<close> sends a cancellation alert for service \<open>u\<close>
  exactly when it is the first one to see \<open>u\<close> cancelled; so the alerts for \<open>u\<close> number
  one when \<open>u\<close> is ever seen cancelled, and none otherwise.
\<close>

theorem cancellation_notified_once:
  "(\<not> readBool (notifiedCancels m) (ServiceUid svc) \<longrightarrow>
      sent (handleCancellation app m svc frm dest)
        = [SendTrainCancellation (ServiceUid svc) frm dest
             (if CancelReasonShortText (LocationDetail svc) = '''' then ''No reason provided''
              else CancelReasonShortText (LocationDetail svc))]
      \<and> priority (SendTrainCancellation (ServiceUid svc) frm dest
             (if CancelReasonShortText (LocationDetail svc) = '''' then ''No reason provided''
              else CancelReasonShortText (LocationDetail svc))) = PriorityHigh
      \<and> readBool (notifiedCancels (st (handleCancellation app m svc frm dest))) (ServiceUid svc))
   \<and> (readBool (notifiedCancels m) (ServiceUid svc) \<longrightarrow>
        handleCancellation app m svc frm dest = \<lparr>st = m, sent = [], err = None\<rparr>)
   \<and> (readBool (notifiedCancels m) u \<longrightarrow> readBool (notifiedCancels (fst (observeAll m obs))) u)
   \<and> (i < length obs \<longrightarrow>
        (filter (isCancellationFor u) (snd (observeAll NewTrainMonitor obs) ! i) \<noteq> []
           \<longleftrightarrow> observesCancelled u (obs ! i) \<and> (\<forall>j<i. \<not> observesCancelled u (obs ! j))))
   \<and> length (filter (isCancellationFor u) (concat (snd (observeAll NewTrainMonitor obs))))
       = (if \<exists>ob\<in>set obs. observesCancelled u ob then 1 else 0)
   \<and> ((\<forall>k\<in>set ks. nowDay k = currentDay s) \<and> readBool (notifiedCancels (trainMonitor s)) u \<longrightarrow>
        readBool (notifiedCancels (trainMonitor (fst (ticks s ks)))) u)"
proof -
  have new: "\<not> readBool (notifiedCancels NewTrainMonitor) u"
    by (simp add: NewTrainMonitor_def readBool_def)
  have one: "\<not> readBool (notifiedCancels m) (ServiceUid svc) \<longrightarrow>
      sent (handleCancellation app m svc frm dest)
        = [SendTrainCancellation (ServiceUid svc) frm dest
             (if CancelReasonShortText (LocationDetail svc) = '''' then ''No reason provided''
              else CancelReasonShortText (LocationDetail svc))]
      \<and> priority (SendTrainCancellation (ServiceUid svc) frm dest
             (if CancelReasonShortText (LocationDetail svc) = '''' then ''No reason provided''
              else CancelReasonShortText (LocationDetail svc))) = PriorityHigh
      \<and> readBool (notifiedCancels (st (handleCancellation app m svc frm dest))) (ServiceUid svc)"
    by (simp add: handleCancellation_sent handleCancellation_st readBool_upd)
  have two: "readBool (notifiedCancels m) (ServiceUid svc) \<longrightarrow>
        handleCancellation app m svc frm dest = \<lparr>st = m, sent = [], err = None\<rparr>"
    by (simp add: handleCancellation_def Let_def silent_def)
  have three: "readBool (notifiedCancels m) u \<longrightarrow> readBool (notifiedCancels (fst (observeAll m obs))) u"
    by (simp add: latch_run)
  have four: "i < length obs \<longrightarrow>
        (filter (isCancellationFor u) (snd (observeAll NewTrainMonitor obs) ! i) \<noteq> []
           \<longleftrightarrow> observesCancelled u (obs ! i) \<and> (\<forall>j<i. \<not> observesCancelled u (obs ! j)))"
    using first_cancellation_only [of i obs u NewTrainMonitor] new by simp
  have five: "length (filter (isCancellationFor u) (concat (snd (observeAll NewTrainMonitor obs))))
       = (if \<exists>ob\<in>set obs. observesCancelled u ob then 1 else 0)"
    using cancellations_run [of u NewTrainMonitor obs] new by simp
  have six: "(\<forall>k\<in>set ks. nowDay k = currentDay s) \<and> readBool (notifiedCancels (trainMonitor s)) u \<longrightarrow>
        readBool (notifiedCancels (trainMonitor (fst (ticks s ks)))) u"
    using ticks_latch [of ks s u] by blast
  from one two three four five six show ?thesis by blast
qed

theorem cancellation_notified_once_witness:
  "snd (observeAll NewTrainMonitor [cancelledObservation False, cancelledObservation True])
     = [[SendTrainCancellation ''W12345'' ''WIN'' ''WAT'' ''No reason provided''], []]
   \<and> length (filter (isCancellationFor ''W12345'')
        (concat (snd (observeAll NewTrainMonitor [cancelledObservation False, cancelledObservation True])))) = 1
   \<and> readBool (notifiedCancels (fst (observeAll NewTrainMonitor
        [cancelledObservation False, cancelledObservation True]))) ''W12345''"
proof -
  let ?obs = "[cancelledObservation False, cancelledObservation True]"
  let ?m1 = "fst (observeAll NewTrainMonitor [cancelledObservation False])"
  have ev: "snd (observeAll NewTrainMonitor ?obs)
     = [[SendTrainCancellation ''W12345'' ''WIN'' ''WAT'' ''No reason provided''], []]"
    by code_simp
  have c: "\<exists>ob\<in>set ?obs. observesCancelled ''W12345'' ob"
    by (simp add: observesCancelled_def cancelledObservation_def isCancelled_def)
  have l1: "readBool (notifiedCancels ?m1) ''W12345''" by code_simp
  have split: "fst (observeAll NewTrainMonitor ?obs) = fst (observeAll ?m1 [cancelledObservation True])"
    by simp
  note T = cancellation_notified_once
             [where u = "''W12345''" and obs = ?obs and m = NewTrainMonitor and i = 0 and ks = "[]"]
  note T1 = cancellation_notified_once
             [where u = "''W12345''" and obs = "[cancelledObservation True]" and m = ?m1 and i = 0 and ks = "[]"]
  from T c have count: "length (filter (isCancellationFor ''W12345'')
        (concat (snd (observeAll NewTrainMonitor ?obs)))) = 1"
    by presburger
  from T1 l1 have "readBool (notifiedCancels (fst (observeAll ?m1 [cancelledObservation True]))) ''W12345''"
    by blast
  then have "readBool (notifiedCancels (fst (observeAll NewTrainMonitor ?obs))) ''W12345''"
    by (simp only: split)
  with ev count show ?thesis by blast
qed


end
